theory Spec2Isabelle
  imports
    Main
    "HOL-Library.Word"
    "HOL-Library.Char_ord"
    "HOL-Library.List_Lexorder"
begin

section \<open>Net classes of pcbnew: \<^verbatim>\<open>class_netclass.h\<close>\<close>

text \<open>
  The header \<^verbatim>\<open>src/pcbnew/class_netclass.h\<close> declares two classes: \<^verbatim>\<open>NETCLASS\<close>, a
  bundle of routing parameters with a set of member net names, and \<^verbatim>\<open>NETCLASSES\<close>, a
  container that maps names to shared pointers to \<^verbatim>\<open>NETCLASS\<close> objects and hands out one
  default net class. The member functions that the header defines inline are embedded
  below from their bodies. The member functions it only declares (their bodies are in
  \<^verbatim>\<open>class_netclass.cpp\<close>, which is not part of the sources at hand) are modelled from
  the specification; each such definition says so.
\<close>

subsection \<open>Basic types\<close>

text \<open>
  \<^verbatim>\<open>wxString\<close> is a string of characters, compared code unit by code unit
  (\<^verbatim>\<open>operator<\<close> is lexicographic on the character codes, a proper prefix being smaller).
  \<^typ>\<open>string\<close> with the order of \<^verbatim>\<open>HOL-Library.Char_ord\<close> and
  \<^verbatim>\<open>HOL-Library.List_Lexorder\<close> is that order on 8-bit characters.
  \<^verbatim>\<open>int\<close> and \<^verbatim>\<open>unsigned\<close> are 32-bit machine integers; the net class only stores and
  copies them. \<^verbatim>\<open>layerSelection\<close> is \<^verbatim>\<open>std::bitset<32>\<close> (line 49).
\<close>

type_synonym wxString = string
type_synonym c_int = "32 word"
type_synonym c_unsigned = "32 word"
type_synonym layerSelection = "32 word"

subsection \<open>\<^verbatim>\<open>STRINGSET\<close>: an ordered set of strings\<close>

text \<open>
  Line 47 declares \<^verbatim>\<open>STRINGSET\<close> with the macro \<^verbatim>\<open>DECL_SET_FOR_SWIG( STRINGSET, wxString )\<close>.
  The macro is defined in \<^verbatim>\<open>macros.h\<close>, which is not among the sources; the header includes
  \<^verbatim>\<open><set>\<close> for it and uses the result through \<^verbatim>\<open>insert\<close>, \<^verbatim>\<open>erase\<close>, \<^verbatim>\<open>clear\<close>, \<^verbatim>\<open>size\<close>,
  \<^verbatim>\<open>begin\<close> and \<^verbatim>\<open>end\<close>, so \<^verbatim>\<open>STRINGSET\<close> is taken to be \<^verbatim>\<open>std::set<wxString>\<close>.

  A \<^verbatim>\<open>std::set\<close> is a search tree ordered by \<^verbatim>\<open>operator<\<close>. It is represented here by the
  sequence of its keys as an in-order walk of the tree meets them, that is, by what
  iterating from \<^verbatim>\<open>begin()\<close> to \<^verbatim>\<open>end()\<close> yields. The operations search that sequence
  with \<^verbatim>\<open><\<close> only, as the tree does: two keys are equivalent when neither is smaller.
  An iterator is a position in the sequence: \<^verbatim>\<open>begin()\<close> is position \<open>0\<close>, \<^verbatim>\<open>end()\<close> is
  the size.
\<close>

type_synonym STRINGSET = "wxString list"

text \<open>The class invariant of \<^verbatim>\<open>std::set\<close>: the keys are strictly ascending.\<close>

definition STRINGSET_inv :: "STRINGSET \<Rightarrow> bool" where
  "STRINGSET_inv xs = sorted_wrt (<) xs"

text \<open>\<^verbatim>\<open>insert( key )\<close>: the set is unchanged when an equivalent key is present.\<close>

fun STRINGSET_insert :: "wxString \<Rightarrow> STRINGSET \<Rightarrow> STRINGSET" where
  "STRINGSET_insert k [] = [k]"
| "STRINGSET_insert k (x # xs) =
     (if k < x then k # x # xs
      else if x < k then x # STRINGSET_insert k xs
      else x # xs)"

text \<open>\<^verbatim>\<open>erase( key )\<close>: removes the equivalent key when there is one.\<close>

fun STRINGSET_erase :: "wxString \<Rightarrow> STRINGSET \<Rightarrow> STRINGSET" where
  "STRINGSET_erase k [] = []"
| "STRINGSET_erase k (x # xs) =
     (if k < x then x # xs
      else if x < k then x # STRINGSET_erase k xs
      else xs)"

text \<open>
  \<^verbatim>\<open>erase( iterator )\<close>: removes the element at that position. The iterator has to be
  dereferenceable; erasing \<^verbatim>\<open>end()\<close> or a position beyond it is undefined behaviour in
  C++, which is the result \<open>None\<close> here.
\<close>

definition STRINGSET_erase_at :: "nat \<Rightarrow> STRINGSET \<Rightarrow> STRINGSET option" where
  "STRINGSET_erase_at i xs =
     (if i < length xs then Some (take i xs @ drop (Suc i) xs) else None)"

definition STRINGSET_clear :: "STRINGSET \<Rightarrow> STRINGSET" where
  "STRINGSET_clear xs = []"

definition STRINGSET_size :: "STRINGSET \<Rightarrow> nat" where
  "STRINGSET_size xs = length xs"

subsection \<open>\<^verbatim>\<open>class NETCLASS\<close>\<close>

text \<open>
  The data members of lines 76 and 116 to 143, in the order of the header.
  \<^verbatim>\<open>DEFAULT_LAYER_SELECTION\<close> (line 76) is declared without \<^verbatim>\<open>static\<close>, so it is a
  member of every object. The static constants of lines 61 to 75 are not part of an
  object; their values are defined in the missing \<^verbatim>\<open>class_netclass.cpp\<close>.
\<close>

record NETCLASS =
  DEFAULT_LAYER_SELECTION :: layerSelection
  m_Name :: wxString
  m_Description :: wxString
  m_Members :: STRINGSET
  m_Clearance :: c_int
  m_TrackWidth :: c_int
  m_ViaDia :: c_int
  m_ViaDrill :: c_int
  m_uViaDia :: c_int
  m_uViaDrill :: c_int
  m_diffPairWidth :: c_int
  m_diffPairGap :: c_int
  m_max_vias :: c_int
  m_topology :: c_int
  m_min_length :: c_int
  m_max_length :: c_int
  m_max_skew :: c_int
  m_stub_length :: c_int
  m_type :: c_int
  m_layer :: layerSelection

text \<open>The anonymous enumerations of lines 81 to 86 and 101 to 111, as the integers they are.\<close>

definition NO_TYPE :: c_int where "NO_TYPE = 0"
definition POWER_TYPE :: c_int where "POWER_TYPE = 1"
definition SIGNAL_TYPE :: c_int where "SIGNAL_TYPE = 2"
definition MIXED_TYPE :: c_int where "MIXED_TYPE = 3"

definition NO_SPECIAL_TOPOLOGY :: c_int where "NO_SPECIAL_TOPOLOGY = 0"
definition STAR_TOPOLOGY :: c_int where "STAR_TOPOLOGY = 1"
definition T_TOPOLOGY :: c_int where "T_TOPOLOGY = 2"
definition FLYBY_TOPOLOGY :: c_int where "FLYBY_TOPOLOGY = 3"
definition HORIZONTAL_TOPOLOGY :: c_int where "HORIZONTAL_TOPOLOGY = 4"
definition VERTICAL_TOPOLOGY :: c_int where "VERTICAL_TOPOLOGY = 5"
definition SIMPLE_DAISY_CHAIN_TOPOLOGY :: c_int where "SIMPLE_DAISY_CHAIN_TOPOLOGY = 6"
definition MIDDRIVEN_DAISY_CHAIN_TOPOLOGY :: c_int where "MIDDRIVEN_DAISY_CHAIN_TOPOLOGY = 7"
definition MULTIPOINT_TOPOLOGY :: c_int where "MULTIPOINT_TOPOLOGY = 8"

text \<open>
  The member functions of lines 158 to 275. Each takes the object \<open>this\<close> last and
  returns the object after the call (a \<^verbatim>\<open>const\<close> function returns its value). The
  getters \<^verbatim>\<open>GetDescription\<close>, \<^verbatim>\<open>GetClearance\<close>, ... return the data member unchanged and are
  the selectors \<^const>\<open>m_Description\<close>, \<^const>\<open>m_Clearance\<close>, ... of the record.
  \<^verbatim>\<open>NetNames()\<close> (line 224) hands out the set itself. \<^verbatim>\<open>Format\<close> and \<^verbatim>\<open>Show\<close> are declared
  only and write to a stream; no property below is about them.
\<close>

definition NETCLASS_GetClass :: "NETCLASS \<Rightarrow> wxString" where
  "NETCLASS_GetClass this = ''NETCLASS''"

definition NETCLASS_GetName :: "NETCLASS \<Rightarrow> wxString" where
  "NETCLASS_GetName this = m_Name this"

definition NETCLASS_SetName :: "wxString \<Rightarrow> NETCLASS \<Rightarrow> NETCLASS" where
  "NETCLASS_SetName aName this = this\<lparr>m_Name := aName\<rparr>"

text \<open>\<^verbatim>\<open>GetCount\<close> returns \<^verbatim>\<open>m_Members.size()\<close> as \<^verbatim>\<open>unsigned\<close>.\<close>

definition NETCLASS_GetCount :: "NETCLASS \<Rightarrow> c_unsigned" where
  "NETCLASS_GetCount this = of_nat (STRINGSET_size (m_Members this))"

definition NETCLASS_Clear :: "NETCLASS \<Rightarrow> NETCLASS" where
  "NETCLASS_Clear this = this\<lparr>m_Members := STRINGSET_clear (m_Members this)\<rparr>"

definition NETCLASS_Add :: "wxString \<Rightarrow> NETCLASS \<Rightarrow> NETCLASS" where
  "NETCLASS_Add aNetname this =
     this\<lparr>m_Members := STRINGSET_insert aNetname (m_Members this)\<rparr>"

text \<open>
  \<^verbatim>\<open>begin()\<close> and \<^verbatim>\<open>end()\<close> (lines 199 to 204) are the iterators of \<^verbatim>\<open>m_Members\<close>;
  \<open>NETCLASS_range\<close> is the sequence of net names that a loop from \<^verbatim>\<open>begin()\<close> to
  \<^verbatim>\<open>end()\<close> visits.
\<close>

definition NETCLASS_begin :: "NETCLASS \<Rightarrow> nat" where
  "NETCLASS_begin this = 0"

definition NETCLASS_end :: "NETCLASS \<Rightarrow> nat" where
  "NETCLASS_end this = STRINGSET_size (m_Members this)"

definition NETCLASS_range :: "NETCLASS \<Rightarrow> wxString list" where
  "NETCLASS_range this =
     map (\<lambda>i. m_Members this ! i) [NETCLASS_begin this ..< NETCLASS_end this]"

text \<open>\<^verbatim>\<open>Remove( iterator )\<close> (line 210) and \<^verbatim>\<open>Remove( const wxString& )\<close> (line 219).\<close>

definition NETCLASS_Remove_iterator :: "nat \<Rightarrow> NETCLASS \<Rightarrow> NETCLASS option" where
  "NETCLASS_Remove_iterator aName this =
     (case STRINGSET_erase_at aName (m_Members this) of
        None \<Rightarrow> None
      | Some ms \<Rightarrow> Some (this\<lparr>m_Members := ms\<rparr>))"

definition NETCLASS_Remove :: "wxString \<Rightarrow> NETCLASS \<Rightarrow> NETCLASS" where
  "NETCLASS_Remove aName this =
     this\<lparr>m_Members := STRINGSET_erase aName (m_Members this)\<rparr>"

definition NETCLASS_SetDescription :: "wxString \<Rightarrow> NETCLASS \<Rightarrow> NETCLASS" where
  "NETCLASS_SetDescription aDesc this = this\<lparr>m_Description := aDesc\<rparr>"

definition NETCLASS_SetClearance :: "c_int \<Rightarrow> NETCLASS \<Rightarrow> NETCLASS" where
  "NETCLASS_SetClearance aClearance this = this\<lparr>m_Clearance := aClearance\<rparr>"

definition NETCLASS_SetTrackWidth :: "c_int \<Rightarrow> NETCLASS \<Rightarrow> NETCLASS" where
  "NETCLASS_SetTrackWidth aWidth this = this\<lparr>m_TrackWidth := aWidth\<rparr>"

definition NETCLASS_SetViaDiameter :: "c_int \<Rightarrow> NETCLASS \<Rightarrow> NETCLASS" where
  "NETCLASS_SetViaDiameter aDia this = this\<lparr>m_ViaDia := aDia\<rparr>"

definition NETCLASS_SetViaDrill :: "c_int \<Rightarrow> NETCLASS \<Rightarrow> NETCLASS" where
  "NETCLASS_SetViaDrill aSize this = this\<lparr>m_ViaDrill := aSize\<rparr>"

definition NETCLASS_SetuViaDiameter :: "c_int \<Rightarrow> NETCLASS \<Rightarrow> NETCLASS" where
  "NETCLASS_SetuViaDiameter aSize this = this\<lparr>m_uViaDia := aSize\<rparr>"

definition NETCLASS_SetuViaDrill :: "c_int \<Rightarrow> NETCLASS \<Rightarrow> NETCLASS" where
  "NETCLASS_SetuViaDrill aSize this = this\<lparr>m_uViaDrill := aSize\<rparr>"

definition NETCLASS_SetDiffPairWidth :: "c_int \<Rightarrow> NETCLASS \<Rightarrow> NETCLASS" where
  "NETCLASS_SetDiffPairWidth aSize this = this\<lparr>m_diffPairWidth := aSize\<rparr>"

definition NETCLASS_SetDiffPairGap :: "c_int \<Rightarrow> NETCLASS \<Rightarrow> NETCLASS" where
  "NETCLASS_SetDiffPairGap aSize this = this\<lparr>m_diffPairGap := aSize\<rparr>"

definition NETCLASS_SetMaxVias :: "c_int \<Rightarrow> NETCLASS \<Rightarrow> NETCLASS" where
  "NETCLASS_SetMaxVias aNumber this = this\<lparr>m_max_vias := aNumber\<rparr>"

definition NETCLASS_SetTopology :: "c_int \<Rightarrow> NETCLASS \<Rightarrow> NETCLASS" where
  "NETCLASS_SetTopology aTopology this = this\<lparr>m_topology := aTopology\<rparr>"

definition NETCLASS_SetMinLength :: "c_int \<Rightarrow> NETCLASS \<Rightarrow> NETCLASS" where
  "NETCLASS_SetMinLength aLength this = this\<lparr>m_min_length := aLength\<rparr>"

definition NETCLASS_SetMaxLength :: "c_int \<Rightarrow> NETCLASS \<Rightarrow> NETCLASS" where
  "NETCLASS_SetMaxLength aLength this = this\<lparr>m_max_length := aLength\<rparr>"

definition NETCLASS_SetMaxSkew :: "c_int \<Rightarrow> NETCLASS \<Rightarrow> NETCLASS" where
  "NETCLASS_SetMaxSkew aLength this = this\<lparr>m_max_skew := aLength\<rparr>"

definition NETCLASS_SetStubLength :: "c_int \<Rightarrow> NETCLASS \<Rightarrow> NETCLASS" where
  "NETCLASS_SetStubLength aLength this = this\<lparr>m_stub_length := aLength\<rparr>"

definition NETCLASS_SetType :: "c_int \<Rightarrow> NETCLASS \<Rightarrow> NETCLASS" where
  "NETCLASS_SetType aType this = this\<lparr>m_type := aType\<rparr>"

definition NETCLASS_SetLayer :: "layerSelection \<Rightarrow> NETCLASS \<Rightarrow> NETCLASS" where
  "NETCLASS_SetLayer aLayer this = this\<lparr>m_layer := aLayer\<rparr>"

text \<open>
  The class (lines 57 to 301) declares no assignment operator and deletes none, and every
  data member can be assigned, so C++ declares the implicit copy assignment, public:
  \<^verbatim>\<open>a = other\<close> assigns every non-static data member of \<open>other\<close> to that of \<open>a\<close>, the name
  included. The class declares a destructor (line 156), so there is no implicit move
  assignment; an assignment from a temporary is this copy assignment as well.
\<close>

definition NETCLASS_copy_assign :: "NETCLASS \<Rightarrow> NETCLASS \<Rightarrow> NETCLASS" where
  "NETCLASS_copy_assign other this =
     this\<lparr>DEFAULT_LAYER_SELECTION := DEFAULT_LAYER_SELECTION other,
          m_Name := m_Name other,
          m_Description := m_Description other,
          m_Members := m_Members other,
          m_Clearance := m_Clearance other,
          m_TrackWidth := m_TrackWidth other,
          m_ViaDia := m_ViaDia other,
          m_ViaDrill := m_ViaDrill other,
          m_uViaDia := m_uViaDia other,
          m_uViaDrill := m_uViaDrill other,
          m_diffPairWidth := m_diffPairWidth other,
          m_diffPairGap := m_diffPairGap other,
          m_max_vias := m_max_vias other,
          m_topology := m_topology other,
          m_min_length := m_min_length other,
          m_max_length := m_max_length other,
          m_max_skew := m_max_skew other,
          m_stub_length := m_stub_length other,
          m_type := m_type other,
          m_layer := m_layer other\<rparr>"

text \<open>
  Modelled from the spec: the value of \<^verbatim>\<open>NETCLASS::Default\<close> (line 147, "the name of the
  default NETCLASS"), which \<^verbatim>\<open>class_netclass.cpp\<close> defines. The specification calls it
  the reserved name "Default".
\<close>

definition NETCLASS_Default :: wxString where
  "NETCLASS_Default = ''Default''"

text \<open>
  The static constants \<^verbatim>\<open>DEFAULT_CLEARANCE\<close> to \<^verbatim>\<open>DEFAULT_TYPE\<close> of lines 61 to 75 have
  their values in the missing \<^verbatim>\<open>class_netclass.cpp\<close>. They are a parameter of the model,
  together with the value that a new object's layer selection starts with.
\<close>

record NETCLASS_consts =
  DEFAULT_CLEARANCE :: c_int
  DEFAULT_VIA_DRILL :: c_int
  DEFAULT_UVIA_DRILL :: c_int
  DEFAULT_VIA_DIAMETER :: c_int
  DEFAULT_UVIA_DIAMETER :: c_int
  DEFAULT_TRACK_WIDTH :: c_int
  DEFAULT_DIFF_PAIR_WIDTH :: c_int
  DEFAULT_DIFF_PAIR_GAP :: c_int
  DEFAULT_MAX_VIAS :: c_int
  DEFAULT_TOPOLOGY :: c_int
  DEFAULT_MIN_LENGTH :: c_int
  DEFAULT_MAX_LENGTH :: c_int
  DEFAULT_MAX_SKEW :: c_int
  DEFAULT_STUB_LENGTH :: c_int
  DEFAULT_TYPE :: c_int
  INITIAL_LAYER_SELECTION :: layerSelection

text \<open>
  Modelled from the spec: the constructor \<^verbatim>\<open>NETCLASS( const wxString& aName )\<close> (line 154),
  whose body is in the missing \<^verbatim>\<open>class_netclass.cpp\<close>. The specification has a Constraint
  Set constructed with the given name as its identity "and library-defined default
  parameter values". The description and the members are the empty string and the empty
  set that C++ constructs for these data members.
\<close>

definition NETCLASS_ctor :: "NETCLASS_consts \<Rightarrow> wxString \<Rightarrow> NETCLASS" where
  "NETCLASS_ctor c aName =
     \<lparr>DEFAULT_LAYER_SELECTION = INITIAL_LAYER_SELECTION c,
      m_Name = aName,
      m_Description = [],
      m_Members = [],
      m_Clearance = DEFAULT_CLEARANCE c,
      m_TrackWidth = DEFAULT_TRACK_WIDTH c,
      m_ViaDia = DEFAULT_VIA_DIAMETER c,
      m_ViaDrill = DEFAULT_VIA_DRILL c,
      m_uViaDia = DEFAULT_UVIA_DIAMETER c,
      m_uViaDrill = DEFAULT_UVIA_DRILL c,
      m_diffPairWidth = DEFAULT_DIFF_PAIR_WIDTH c,
      m_diffPairGap = DEFAULT_DIFF_PAIR_GAP c,
      m_max_vias = DEFAULT_MAX_VIAS c,
      m_topology = DEFAULT_TOPOLOGY c,
      m_min_length = DEFAULT_MIN_LENGTH c,
      m_max_length = DEFAULT_MAX_LENGTH c,
      m_max_skew = DEFAULT_MAX_SKEW c,
      m_stub_length = DEFAULT_STUB_LENGTH c,
      m_type = DEFAULT_TYPE c,
      m_layer = INITIAL_LAYER_SELECTION c\<rparr>"

text \<open>
  Modelled from the spec: \<^verbatim>\<open>void SetParams( const NETCLASS& aDefaults )\<close> (line 285), whose
  body is in the missing \<^verbatim>\<open>class_netclass.cpp\<close>. The specification: it "bulk-copies every
  routing/electrical parameter field (clearance through layerMask) from other into this
  Set, but explicitly excludes name, description, and members".
\<close>

definition NETCLASS_SetParams :: "NETCLASS \<Rightarrow> NETCLASS \<Rightarrow> NETCLASS" where
  "NETCLASS_SetParams aDefaults this =
     this\<lparr>m_Clearance := m_Clearance aDefaults,
          m_TrackWidth := m_TrackWidth aDefaults,
          m_ViaDia := m_ViaDia aDefaults,
          m_ViaDrill := m_ViaDrill aDefaults,
          m_uViaDia := m_uViaDia aDefaults,
          m_uViaDrill := m_uViaDrill aDefaults,
          m_diffPairWidth := m_diffPairWidth aDefaults,
          m_diffPairGap := m_diffPairGap aDefaults,
          m_max_vias := m_max_vias aDefaults,
          m_topology := m_topology aDefaults,
          m_min_length := m_min_length aDefaults,
          m_max_length := m_max_length aDefaults,
          m_max_skew := m_max_skew aDefaults,
          m_stub_length := m_stub_length aDefaults,
          m_type := m_type aDefaults,
          m_layer := m_layer aDefaults\<rparr>"

subsection \<open>Objects, shared pointers and the process\<close>

text \<open>
  \<^verbatim>\<open>NETCLASSPTR\<close> (line 304, \<^verbatim>\<open>DECL_SPTR_FOR_SWIG\<close>) is what \<^verbatim>\<open>std::make_shared<NETCLASS>\<close>
  returns in line 357: a shared pointer to a \<^verbatim>\<open>NETCLASS\<close>. Several holders may point to one
  object, and a change made through one pointer is seen through all of them, so the
  objects live in a store. The store is the list of all objects made so far, the address
  of an object is its index, and \<open>None\<close> is the null pointer. An object stays in the
  store when its last pointer is gone: nothing can reach it any more, so nothing can
  tell that C++ would have destroyed it.

  The process also holds \<^verbatim>\<open>defNetClass\<close>, the static local variable of
  \<^verbatim>\<open>NETCLASSES::GetDefault\<close> (line 357): \<open>None\<close> until its initialisation ran, and the
  pointer it holds afterwards. There is one such variable for the whole process,
  whatever the number of \<^verbatim>\<open>NETCLASSES\<close> objects.
\<close>

type_synonym NETCLASSPTR = "nat option"

record process =
  heap :: "NETCLASS list"
  defNetClass :: "NETCLASSPTR option"

definition process_start :: process where
  "process_start = \<lparr>heap = [], defNetClass = None\<rparr>"

text \<open>\<^verbatim>\<open>*p\<close>: the object behind a pointer; \<open>None\<close> for the null pointer.\<close>

definition deref :: "process \<Rightarrow> NETCLASSPTR \<Rightarrow> NETCLASS option" where
  "deref s p =
     (case p of
        None \<Rightarrow> None
      | Some a \<Rightarrow> if a < length (heap s) then Some (heap s ! a) else None)"

definition make_shared :: "NETCLASS \<Rightarrow> process \<Rightarrow> NETCLASSPTR \<times> process" where
  "make_shared obj s = (Some (length (heap s)), s\<lparr>heap := heap s @ [obj]\<rparr>)"

text \<open>
  A call \<^verbatim>\<open>p->f( args )\<close> of a \<^verbatim>\<open>NETCLASS\<close> member function that changes the object.
  \<^verbatim>\<open>SetParams\<close> takes its argument by reference, here through a pointer to it.
\<close>

datatype NETCLASS_call =
    Call_SetName wxString
  | Call_Clear
  | Call_Add wxString
  | Call_Remove_iterator nat
  | Call_Remove wxString
  | Call_SetDescription wxString
  | Call_SetClearance c_int
  | Call_SetTrackWidth c_int
  | Call_SetViaDiameter c_int
  | Call_SetViaDrill c_int
  | Call_SetuViaDiameter c_int
  | Call_SetuViaDrill c_int
  | Call_SetDiffPairWidth c_int
  | Call_SetDiffPairGap c_int
  | Call_SetMaxVias c_int
  | Call_SetTopology c_int
  | Call_SetMinLength c_int
  | Call_SetMaxLength c_int
  | Call_SetMaxSkew c_int
  | Call_SetStubLength c_int
  | Call_SetType c_int
  | Call_SetLayer layerSelection
  | Call_SetParams NETCLASSPTR

text \<open>
  The object after the call, or \<open>None\<close> where C++ leaves the behaviour undefined
  (erasing through an iterator that is not dereferenceable, a null reference).
\<close>

fun NETCLASS_exec :: "process \<Rightarrow> NETCLASS_call \<Rightarrow> NETCLASS \<Rightarrow> NETCLASS option" where
  "NETCLASS_exec s (Call_SetName aName) this = Some (NETCLASS_SetName aName this)"
| "NETCLASS_exec s Call_Clear this = Some (NETCLASS_Clear this)"
| "NETCLASS_exec s (Call_Add aNetname) this = Some (NETCLASS_Add aNetname this)"
| "NETCLASS_exec s (Call_Remove_iterator aName) this = NETCLASS_Remove_iterator aName this"
| "NETCLASS_exec s (Call_Remove aName) this = Some (NETCLASS_Remove aName this)"
| "NETCLASS_exec s (Call_SetDescription aDesc) this = Some (NETCLASS_SetDescription aDesc this)"
| "NETCLASS_exec s (Call_SetClearance v) this = Some (NETCLASS_SetClearance v this)"
| "NETCLASS_exec s (Call_SetTrackWidth v) this = Some (NETCLASS_SetTrackWidth v this)"
| "NETCLASS_exec s (Call_SetViaDiameter v) this = Some (NETCLASS_SetViaDiameter v this)"
| "NETCLASS_exec s (Call_SetViaDrill v) this = Some (NETCLASS_SetViaDrill v this)"
| "NETCLASS_exec s (Call_SetuViaDiameter v) this = Some (NETCLASS_SetuViaDiameter v this)"
| "NETCLASS_exec s (Call_SetuViaDrill v) this = Some (NETCLASS_SetuViaDrill v this)"
| "NETCLASS_exec s (Call_SetDiffPairWidth v) this = Some (NETCLASS_SetDiffPairWidth v this)"
| "NETCLASS_exec s (Call_SetDiffPairGap v) this = Some (NETCLASS_SetDiffPairGap v this)"
| "NETCLASS_exec s (Call_SetMaxVias v) this = Some (NETCLASS_SetMaxVias v this)"
| "NETCLASS_exec s (Call_SetTopology v) this = Some (NETCLASS_SetTopology v this)"
| "NETCLASS_exec s (Call_SetMinLength v) this = Some (NETCLASS_SetMinLength v this)"
| "NETCLASS_exec s (Call_SetMaxLength v) this = Some (NETCLASS_SetMaxLength v this)"
| "NETCLASS_exec s (Call_SetMaxSkew v) this = Some (NETCLASS_SetMaxSkew v this)"
| "NETCLASS_exec s (Call_SetStubLength v) this = Some (NETCLASS_SetStubLength v this)"
| "NETCLASS_exec s (Call_SetType v) this = Some (NETCLASS_SetType v this)"
| "NETCLASS_exec s (Call_SetLayer v) this = Some (NETCLASS_SetLayer v this)"
| "NETCLASS_exec s (Call_SetParams q) this =
     (case deref s q of
        None \<Rightarrow> None
      | Some aDefaults \<Rightarrow> Some (NETCLASS_SetParams aDefaults this))"

text \<open>
  A sequence of calls on one object, stopping at undefined behaviour. The store \<open>s\<close>, in
  which \<^verbatim>\<open>SetParams\<close> finds its argument, is the same for every call of the sequence: the
  argument is an object that the sequence does not change. Calls through pointers into
  one store, where the argument may be the object itself, are the steps of \<open>run\<close> below,
  which read the store as it is at each call.
\<close>

fun NETCLASS_exec_all :: "process \<Rightarrow> NETCLASS_call list \<Rightarrow> NETCLASS \<Rightarrow> NETCLASS option" where
  "NETCLASS_exec_all s [] this = Some this"
| "NETCLASS_exec_all s (c # cs) this =
     (case NETCLASS_exec s c this of
        None \<Rightarrow> None
      | Some this' \<Rightarrow> NETCLASS_exec_all s cs this')"

text \<open>The call through a pointer: the object in the store is replaced by the object after the call.\<close>

definition ptr_call :: "NETCLASSPTR \<Rightarrow> NETCLASS_call \<Rightarrow> process \<Rightarrow> process option" where
  "ptr_call p c s =
     (case p of
        None \<Rightarrow> None
      | Some a \<Rightarrow>
          if a < length (heap s) then
            (case NETCLASS_exec s c (heap s ! a) of
               None \<Rightarrow> None
             | Some obj \<Rightarrow> Some (s\<lparr>heap := (heap s)[a := obj]\<rparr>))
          else None)"

text \<open>
  The copy assignment \<^verbatim>\<open>*p = *q\<close> through two pointers. Either pointer being null is
  undefined behaviour. An assignment from a temporary, \<^verbatim>\<open>*p = NETCLASS( aName )\<close>, is the
  making of that object followed by this assignment.
\<close>

definition ptr_copy_assign :: "NETCLASSPTR \<Rightarrow> NETCLASSPTR \<Rightarrow> process \<Rightarrow> process option" where
  "ptr_copy_assign p q s =
     (case p of
        None \<Rightarrow> None
      | Some a \<Rightarrow>
          if a < length (heap s) then
            (case deref s q of
               None \<Rightarrow> None
             | Some other \<Rightarrow>
                 Some (s\<lparr>heap := (heap s)[a := NETCLASS_copy_assign other (heap s ! a)]\<rparr>))
          else None)"

subsection \<open>\<^verbatim>\<open>class NETCLASSES\<close>\<close>

text \<open>
  \<^verbatim>\<open>NETCLASS_MAP\<close> (line 305, \<^verbatim>\<open>DECL_MAP_FOR_SWIG\<close>) maps a \<^verbatim>\<open>wxString\<close> to a
  \<^verbatim>\<open>NETCLASSPTR\<close>; \<^verbatim>\<open>m_NetClasses\<close> (line 319) holds "all the NETCLASSes except the default
  one".
\<close>

type_synonym NETCLASS_MAP = "wxString \<rightharpoonup> NETCLASSPTR"

record NETCLASSES =
  m_NetClasses :: NETCLASS_MAP

text \<open>
  Modelled from the spec: the constructor \<^verbatim>\<open>NETCLASSES()\<close> (line 322), whose body is in the
  missing \<^verbatim>\<open>class_netclass.cpp\<close>. The specification: "A Registry is created empty (with an
  implicit Default)".
\<close>

definition NETCLASSES_ctor :: NETCLASSES where
  "NETCLASSES_ctor = \<lparr>m_NetClasses = Map.empty\<rparr>"


definition NETCLASSES_GetCount :: "NETCLASSES \<Rightarrow> c_unsigned" where
  "NETCLASSES_GetCount this = of_nat (card (dom (m_NetClasses this)))"

text \<open>
  \<^verbatim>\<open>GetDefault\<close> (lines 355 to 359) returns a reference to its static local variable. The
  variable is initialised when control first passes its declaration, with a pointer to
  a new \<^verbatim>\<open>NETCLASS( NETCLASS::Default )\<close>; every later call skips the initialisation. The
  function does not use \<open>this\<close>. The result is the pointer that the reference refers to
  and the process after the call.
\<close>

definition NETCLASSES_GetDefault ::
    "NETCLASS_consts \<Rightarrow> NETCLASSES \<Rightarrow> process \<Rightarrow> NETCLASSPTR \<times> process" where
  "NETCLASSES_GetDefault c this s =
     (case defNetClass s of
        Some p \<Rightarrow> (p, s)
      | None \<Rightarrow>
          (let (p, s') = make_shared (NETCLASS_ctor c NETCLASS_Default) s
           in (p, s'\<lparr>defNetClass := Some p\<rparr>)))"

text \<open>
  The reference that \<^verbatim>\<open>GetDefault\<close> returns is not \<^verbatim>\<open>const\<close>: the caller can assign another
  pointer to the static variable through it, \<^verbatim>\<open>GetDefault() = q\<close>.
\<close>

definition NETCLASSES_GetDefault_assign ::
    "NETCLASS_consts \<Rightarrow> NETCLASSES \<Rightarrow> NETCLASSPTR \<Rightarrow> process \<Rightarrow> process" where
  "NETCLASSES_GetDefault_assign c this q s =
     (snd (NETCLASSES_GetDefault c this s))\<lparr>defNetClass := Some q\<rparr>"

text \<open>
  Modelled from the spec: \<^verbatim>\<open>bool Add( NETCLASSPTR aNetclass )\<close> (line 368), whose body is in
  the missing \<^verbatim>\<open>class_netclass.cpp\<close>. The specification: it "inserts under the key
  constraintSet.name. Returns success only if no existing key collides with that name; on
  collision, returns failure and does not insert, leaving the registry unchanged". The
  specification leaves open what happens for a set named "Default" and says that nothing
  stops a caller from passing one; such a set is treated like any other here. Reading the
  name of the set dereferences the pointer, so a null pointer is undefined behaviour,
  \<open>None\<close>.
\<close>

definition NETCLASSES_Add ::
    "process \<Rightarrow> NETCLASSPTR \<Rightarrow> NETCLASSES \<Rightarrow> (bool \<times> NETCLASSES) option" where
  "NETCLASSES_Add s aNetclass this =
     (case deref s aNetclass of
        None \<Rightarrow> None
      | Some obj \<Rightarrow>
          (case m_NetClasses this (NETCLASS_GetName obj) of
             Some existing \<Rightarrow> Some (False, this)
           | None \<Rightarrow>
               Some (True,
                 this\<lparr>m_NetClasses := (m_NetClasses this)(NETCLASS_GetName obj \<mapsto> aNetclass)\<rparr>)))"

text \<open>
  Modelled from the spec: \<^verbatim>\<open>NETCLASSPTR Remove( const wxString& aNetName )\<close> (line 376), whose
  body is in the missing \<^verbatim>\<open>class_netclass.cpp\<close>. The specification: "if a Set with name
  exists and name != "Default", detaches it from the Registry and returns it to the
  caller; if absent, returns an explicit "not found" result. Removing "Default" must
  fail". Not found is the null pointer (the header: "else NULL").
\<close>

definition NETCLASSES_Remove :: "wxString \<Rightarrow> NETCLASSES \<Rightarrow> NETCLASSPTR \<times> NETCLASSES" where
  "NETCLASSES_Remove aNetName this =
     (if aNetName = NETCLASS_Default then (None, this)
      else
        (case m_NetClasses this aNetName of
           None \<Rightarrow> (None, this)
         | Some found \<Rightarrow> (found, this\<lparr>m_NetClasses := (m_NetClasses this)(aNetName := None)\<rparr>)))"

text \<open>
  Modelled from the spec: \<^verbatim>\<open>NETCLASSPTR Find( const wxString& aName ) const\<close> (line 384),
  whose body is in the missing \<^verbatim>\<open>class_netclass.cpp\<close>. The specification: it "returns the
  Constraint Set for name if present, else an explicit "not found" result (distinct from
  returning the Default)". Not found is the null pointer (the header: "if found, else
  NULL").
\<close>

definition NETCLASSES_Find :: "wxString \<Rightarrow> NETCLASSES \<Rightarrow> NETCLASSPTR" where
  "NETCLASSES_Find aName this =
     (case m_NetClasses this aName of
        None \<Rightarrow> None
      | Some found \<Rightarrow> found)"

subsection \<open>What a program can do to the process\<close>

text \<open>
  The steps by which code that uses what the header declares changes the process: making
  a new net class, calling a member function of a net class through a pointer, assigning
  one net class to another with the implicit copy assignment, calling \<^verbatim>\<open>GetDefault\<close> on
  some container, and assigning through the reference that \<^verbatim>\<open>GetDefault\<close> returns. The
  other member functions of \<^verbatim>\<open>NETCLASSES\<close> read or change the map of their container
  only, which is not part of the process.
\<close>

datatype event =
    Ev_make_shared wxString
  | Ev_call NETCLASSPTR NETCLASS_call
  | Ev_copy_assign NETCLASSPTR NETCLASSPTR
  | Ev_GetDefault NETCLASSES
  | Ev_GetDefault_assign NETCLASSES NETCLASSPTR

fun step :: "NETCLASS_consts \<Rightarrow> event \<Rightarrow> process \<Rightarrow> process option" where
  "step c (Ev_make_shared aName) s = Some (snd (make_shared (NETCLASS_ctor c aName) s))"
| "step c (Ev_call p f) s = ptr_call p f s"
| "step c (Ev_copy_assign p q) s = ptr_copy_assign p q s"
| "step c (Ev_GetDefault this) s = Some (snd (NETCLASSES_GetDefault c this s))"
| "step c (Ev_GetDefault_assign this q) s = Some (NETCLASSES_GetDefault_assign c this q s)"

fun run :: "NETCLASS_consts \<Rightarrow> event list \<Rightarrow> process \<Rightarrow> process option" where
  "run c [] s = Some s"
| "run c (e # es) s =
     (case step c e s of
        None \<Rightarrow> None
      | Some s' \<Rightarrow> run c es s')"

text \<open>
  The steps that act on the default net class itself: \<^verbatim>\<open>SetName\<close> called through the
  pointer that the static variable holds, a copy assignment to the object behind that
  pointer, and an assignment to the static variable.
\<close>

fun renames_Default :: "process \<Rightarrow> event \<Rightarrow> bool" where
  "renames_Default s (Ev_call p (Call_SetName aName)) = (defNetClass s = Some p)"
| "renames_Default s (Ev_copy_assign p q) = (defNetClass s = Some p)"
| "renames_Default s (Ev_GetDefault_assign this q) = True"
| "renames_Default s e = False"

fun Default_kept :: "NETCLASS_consts \<Rightarrow> event list \<Rightarrow> process \<Rightarrow> bool" where
  "Default_kept c [] s = True"
| "Default_kept c (e # es) s =
     (if renames_Default s e then False
      else
        (case step c e s of
           None \<Rightarrow> True
         | Some s' \<Rightarrow> Default_kept c es s'))"

text \<open>
  The two steps that write the name of the object behind the pointer \<open>p\<close>: \<^verbatim>\<open>SetName\<close>
  called through \<open>p\<close>, and a copy assignment to \<open>*p\<close>.
\<close>

fun renames :: "NETCLASSPTR \<Rightarrow> event \<Rightarrow> bool" where
  "renames p (Ev_call q (Call_SetName aName)) = (q = p)"
| "renames p (Ev_copy_assign q other) = (q = p)"
| "renames p e = False"

text \<open>Every net class in the store satisfies the invariant of its set of members.\<close>

definition heap_inv :: "process \<Rightarrow> bool" where
  "heap_inv s = list_all (\<lambda>obj. STRINGSET_inv (m_Members obj)) (heap s)"

text \<open>
  The static variable of \<^verbatim>\<open>GetDefault\<close>, once initialised, points to an object with the
  name \<^verbatim>\<open>NETCLASS::Default\<close>.
\<close>

definition Default_named :: "process \<Rightarrow> bool" where
  "Default_named s =
     (case defNetClass s of
        None \<Rightarrow> True
      | Some p \<Rightarrow>
          (case deref s p of
             None \<Rightarrow> False
           | Some obj \<Rightarrow> NETCLASS_GetName obj = NETCLASS_Default))"

subsection \<open>Sample values\<close>

text \<open>
  An instance of the parameter \<^typ>\<open>NETCLASS_consts\<close> for evaluating the model on concrete
  inputs. The values are samples; no statement below depends on them.
\<close>

definition sample_consts :: NETCLASS_consts where
  "sample_consts =
     \<lparr>DEFAULT_CLEARANCE = 200000,
      DEFAULT_VIA_DRILL = 400000,
      DEFAULT_UVIA_DRILL = 100000,
      DEFAULT_VIA_DIAMETER = 600000,
      DEFAULT_UVIA_DIAMETER = 300000,
      DEFAULT_TRACK_WIDTH = 250000,
      DEFAULT_DIFF_PAIR_WIDTH = 200000,
      DEFAULT_DIFF_PAIR_GAP = 250000,
      DEFAULT_MAX_VIAS = 0,
      DEFAULT_TOPOLOGY = NO_SPECIAL_TOPOLOGY,
      DEFAULT_MIN_LENGTH = 0,
      DEFAULT_MAX_LENGTH = 0,
      DEFAULT_MAX_SKEW = 0,
      DEFAULT_STUB_LENGTH = 0,
      DEFAULT_TYPE = NO_TYPE,
      INITIAL_LAYER_SELECTION = 0\<rparr>"

section \<open>Properties\<close>

subsection \<open>The ordered set of member names\<close>

text \<open>
  \<^verbatim>\<open>insert\<close> and \<^verbatim>\<open>erase\<close> do to the keys what their names say and keep them strictly
  ascending.
\<close>

lemma set_STRINGSET_insert: "set (STRINGSET_insert k xs) = insert k (set xs)"
  by (induction xs) auto

lemma STRINGSET_insert_inv:
  "STRINGSET_inv xs \<Longrightarrow> STRINGSET_inv (STRINGSET_insert k xs)"
  unfolding STRINGSET_inv_def
  by (induction xs) (auto simp: set_STRINGSET_insert)

lemma STRINGSET_insert_idem:
  "STRINGSET_insert k (STRINGSET_insert k xs) = STRINGSET_insert k xs"
  by (induction xs) auto

lemma set_STRINGSET_erase:
  "STRINGSET_inv xs \<Longrightarrow> set (STRINGSET_erase k xs) = set xs - {k}"
  unfolding STRINGSET_inv_def
  by (induction xs) auto

lemma STRINGSET_erase_inv:
  "STRINGSET_inv xs \<Longrightarrow> STRINGSET_inv (STRINGSET_erase k xs)"
  unfolding STRINGSET_inv_def
  by (induction xs) (auto simp: set_STRINGSET_erase STRINGSET_inv_def)

lemma STRINGSET_erase_at_inv:
  assumes "STRINGSET_inv xs" and "STRINGSET_erase_at i xs = Some ys"
  shows "STRINGSET_inv ys"
proof -
  from assms(2) have ys: "ys = take i xs @ drop (Suc i) xs" and i: "i < length xs"
    by (auto simp: STRINGSET_erase_at_def split: if_splits)
  from assms(1) have "sorted_wrt (<) (take i xs @ drop i xs)"
    by (simp add: STRINGSET_inv_def)
  then have "sorted_wrt (<) (take i xs @ drop (Suc i) xs)"
    unfolding sorted_wrt_append
    by (metis drop_Suc in_set_dropD sorted_wrt_drop tl_drop drop_drop plus_1_eq_Suc)
  with ys show ?thesis by (simp add: STRINGSET_inv_def)
qed

lemma NETCLASS_range_eq: "NETCLASS_range this = m_Members this"
  by (simp add: NETCLASS_range_def NETCLASS_begin_def NETCLASS_end_def STRINGSET_size_def map_nth)

lemma count_list_distinct: "distinct xs \<Longrightarrow> x \<in> set xs \<Longrightarrow> count_list xs x = 1"
  by (induction xs) (auto simp: count_list_0_iff)

subsection \<open>The members of a net class\<close>

lemmas NETCLASS_setter_defs =
  NETCLASS_SetName_def NETCLASS_SetDescription_def NETCLASS_SetClearance_def
  NETCLASS_SetTrackWidth_def NETCLASS_SetViaDiameter_def NETCLASS_SetViaDrill_def
  NETCLASS_SetuViaDiameter_def NETCLASS_SetuViaDrill_def NETCLASS_SetDiffPairWidth_def
  NETCLASS_SetDiffPairGap_def NETCLASS_SetMaxVias_def NETCLASS_SetTopology_def
  NETCLASS_SetMinLength_def NETCLASS_SetMaxLength_def NETCLASS_SetMaxSkew_def
  NETCLASS_SetStubLength_def NETCLASS_SetType_def NETCLASS_SetLayer_def
  NETCLASS_SetParams_def

lemma NETCLASS_exec_inv:
  assumes "STRINGSET_inv (m_Members this)" and "NETCLASS_exec s c this = Some this'"
  shows "STRINGSET_inv (m_Members this')"
proof (cases c)
  case Call_Clear
  with assms show ?thesis
    by (auto simp: NETCLASS_Clear_def STRINGSET_clear_def STRINGSET_inv_def)
next
  case (Call_Add n)
  with assms show ?thesis
    by (auto simp: NETCLASS_Add_def STRINGSET_insert_inv)
next
  case (Call_Remove_iterator i)
  with assms show ?thesis
    by (auto simp: NETCLASS_Remove_iterator_def split: option.splits
             dest: STRINGSET_erase_at_inv)
next
  case (Call_Remove n)
  with assms show ?thesis
    by (auto simp: NETCLASS_Remove_def STRINGSET_erase_inv)
next
  case (Call_SetParams q)
  with assms show ?thesis
    by (auto simp: NETCLASS_SetParams_def split: option.splits)
qed (use assms in \<open>auto simp: NETCLASS_setter_defs\<close>)

lemma NETCLASS_exec_all_inv:
  "STRINGSET_inv (m_Members this) \<Longrightarrow> NETCLASS_exec_all s cs this = Some this'
     \<Longrightarrow> STRINGSET_inv (m_Members this')"
proof (induction cs arbitrary: this)
  case Nil
  then show ?case by simp
next
  case (Cons c cs)
  then show ?case
    by (auto split: option.splits dest: NETCLASS_exec_inv)
qed

text \<open>
  Claim C10. Whatever member functions are called, in whatever order, on a net class
  whose set of members satisfies the invariant of \<^verbatim>\<open>std::set\<close> (a new net class does), a
  loop from \<^verbatim>\<open>begin()\<close> to \<^verbatim>\<open>end()\<close> meets the member net names in strictly ascending
  order of the strings, so each stored name exactly once. The enumeration is the sorted
  list of the set of names held: after one more \<^verbatim>\<open>Add\<close> that of the names with the new
  one, after one more \<^verbatim>\<open>Remove\<close> that of the names without the removed one. Two net
  classes that hold the same names enumerate them in the same order, however the names
  were inserted.
\<close>

theorem NETCLASS_members_ascending:
  assumes "STRINGSET_inv (m_Members S)"
    and "NETCLASS_exec_all s cs S = Some S'"
  shows "sorted_wrt (<) (NETCLASS_range S')
    \<and> distinct (NETCLASS_range S')
    \<and> set (NETCLASS_range S') = set (m_Members S')
    \<and> NETCLASS_range S' = sorted_list_of_set (set (m_Members S'))
    \<and> NETCLASS_range (NETCLASS_Add n S') = sorted_list_of_set (insert n (set (m_Members S')))
    \<and> NETCLASS_range (NETCLASS_Remove n S') = sorted_list_of_set (set (m_Members S') - {n})
    \<and> (\<forall>T t ds T'. STRINGSET_inv (m_Members T)
          \<longrightarrow> NETCLASS_exec_all t ds T = Some T'
          \<longrightarrow> set (m_Members T') = set (m_Members S')
          \<longrightarrow> NETCLASS_range T' = NETCLASS_range S')"
proof -
  have i: "STRINGSET_inv (m_Members S')"
    using assms by (rule NETCLASS_exec_all_inv)
  then have inv: "sorted_wrt (<) (m_Members S')"
    by (simp add: STRINGSET_inv_def)
  then have sd: "sorted (m_Members S')" "distinct (m_Members S')"
    by (simp_all add: strict_sorted_iff)
  have canon: "sorted_list_of_set (set xs) = xs" if "STRINGSET_inv xs" for xs :: STRINGSET
    using that
    by (simp add: STRINGSET_inv_def strict_sorted_iff sorted_list_of_set.idem_if_sorted_distinct)
  have same: "\<forall>T t ds T'. STRINGSET_inv (m_Members T)
          \<longrightarrow> NETCLASS_exec_all t ds T = Some T'
          \<longrightarrow> set (m_Members T') = set (m_Members S')
          \<longrightarrow> NETCLASS_range T' = NETCLASS_range S'"
  proof (intro allI impI)
    fix T t ds T'
    assume T: "STRINGSET_inv (m_Members T)" "NETCLASS_exec_all t ds T = Some T'"
      and eq: "set (m_Members T') = set (m_Members S')"
    from T have "STRINGSET_inv (m_Members T')"
      by (rule NETCLASS_exec_all_inv)
    then have "sorted_list_of_set (set (m_Members T')) = m_Members T'"
      by (rule canon)
    with eq canon [OF i] show "NETCLASS_range T' = NETCLASS_range S'"
      by (simp add: NETCLASS_range_eq)
  qed
  have add: "NETCLASS_range (NETCLASS_Add n S')
      = sorted_list_of_set (insert n (set (m_Members S')))"
    using canon [OF STRINGSET_insert_inv [OF i, of n]]
    by (simp add: NETCLASS_range_eq NETCLASS_Add_def set_STRINGSET_insert)
  have rem: "NETCLASS_range (NETCLASS_Remove n S')
      = sorted_list_of_set (set (m_Members S') - {n})"
    using canon [OF STRINGSET_erase_inv [OF i, of n]]
    by (simp add: NETCLASS_range_eq NETCLASS_Remove_def set_STRINGSET_erase [OF i])
  from inv sd canon [OF i] add rem same show ?thesis
    by (simp add: NETCLASS_range_eq)
qed

text \<open>
  A net class named "Power": six calls that insert three names and erase twice leave GND
  and VCC, enumerated in this order. A net class named "Signal" into which GND and VCC are
  inserted enumerates them in the same order.
\<close>

theorem NETCLASS_members_ascending_witness:
  "STRINGSET_inv (m_Members (NETCLASS_ctor sample_consts ''Power''))
   \<and> NETCLASS_exec_all process_start
        [Call_Add ''VCC'', Call_Add ''GND'', Call_Add ''VCC'', Call_Add ''AGND'',
         Call_Remove_iterator 0, Call_Remove ''+5V'']
        (NETCLASS_ctor sample_consts ''Power'')
      = Some ((NETCLASS_ctor sample_consts ''Power'')\<lparr>m_Members := [''GND'', ''VCC'']\<rparr>)
   \<and> NETCLASS_range ((NETCLASS_ctor sample_consts ''Power'')\<lparr>m_Members := [''GND'', ''VCC'']\<rparr>)
      = [''GND'', ''VCC'']
   \<and> sorted_wrt (<)
        (NETCLASS_range ((NETCLASS_ctor sample_consts ''Power'')\<lparr>m_Members := [''GND'', ''VCC'']\<rparr>))
   \<and> distinct
        (NETCLASS_range ((NETCLASS_ctor sample_consts ''Power'')\<lparr>m_Members := [''GND'', ''VCC'']\<rparr>))
   \<and> STRINGSET_inv (m_Members (NETCLASS_ctor sample_consts ''Signal''))
   \<and> NETCLASS_exec_all process_start [Call_Add ''GND'', Call_Add ''VCC'']
        (NETCLASS_ctor sample_consts ''Signal'')
      = Some ((NETCLASS_ctor sample_consts ''Signal'')\<lparr>m_Members := [''GND'', ''VCC'']\<rparr>)
   \<and> set (m_Members ((NETCLASS_ctor sample_consts ''Signal'')\<lparr>m_Members := [''GND'', ''VCC'']\<rparr>))
      = set (m_Members ((NETCLASS_ctor sample_consts ''Power'')\<lparr>m_Members := [''GND'', ''VCC'']\<rparr>))
   \<and> NETCLASS_range ((NETCLASS_ctor sample_consts ''Signal'')\<lparr>m_Members := [''GND'', ''VCC'']\<rparr>)
      = NETCLASS_range ((NETCLASS_ctor sample_consts ''Power'')\<lparr>m_Members := [''GND'', ''VCC'']\<rparr>)"
proof -
  let ?S = "NETCLASS_ctor sample_consts ''Power''"
  let ?S' = "?S\<lparr>m_Members := [''GND'', ''VCC'']\<rparr>"
  let ?T = "NETCLASS_ctor sample_consts ''Signal''"
  let ?T' = "?T\<lparr>m_Members := [''GND'', ''VCC'']\<rparr>"
  have h1: "STRINGSET_inv (m_Members ?S)"
    by (simp add: NETCLASS_ctor_def STRINGSET_inv_def)
  have h2: "NETCLASS_exec_all process_start
        [Call_Add ''VCC'', Call_Add ''GND'', Call_Add ''VCC'', Call_Add ''AGND'',
         Call_Remove_iterator 0, Call_Remove ''+5V''] ?S = Some ?S'"
    by (simp add: NETCLASS_ctor_def NETCLASS_Add_def NETCLASS_Remove_def
          NETCLASS_Remove_iterator_def STRINGSET_erase_at_def)
  have h3: "STRINGSET_inv (m_Members ?T)"
    by (simp add: NETCLASS_ctor_def STRINGSET_inv_def)
  have h4: "NETCLASS_exec_all process_start [Call_Add ''GND'', Call_Add ''VCC''] ?T = Some ?T'"
    by (simp add: NETCLASS_ctor_def NETCLASS_Add_def)
  have h5: "set (m_Members ?T') = set (m_Members ?S')"
    by simp
  have h6: "NETCLASS_range ?S' = [''GND'', ''VCC'']"
    by (simp add: NETCLASS_range_def NETCLASS_begin_def NETCLASS_end_def STRINGSET_size_def
          upt_rec)
  note asc = NETCLASS_members_ascending [OF h1 h2, of "''CLK''"]
  from asc have "sorted_wrt (<) (NETCLASS_range ?S')" and "distinct (NETCLASS_range ?S')"
    by blast+
  moreover from asc have "\<forall>T t ds T'. STRINGSET_inv (m_Members T)
          \<longrightarrow> NETCLASS_exec_all t ds T = Some T'
          \<longrightarrow> set (m_Members T') = set (m_Members ?S')
          \<longrightarrow> NETCLASS_range T' = NETCLASS_range ?S'"
    by (elim conjE)
  then have "NETCLASS_range ?T' = NETCLASS_range ?S'"
    using h3 h4 h5 by blast
  ultimately show ?thesis
    using h1 h2 h3 h4 h5 h6 by (intro conjI)
qed

text \<open>
  Claim C6. Adding a net name twice to a net class leaves exactly one occurrence of it
  among the members, which are the former members and that name: the second \<^verbatim>\<open>Add\<close>
  changes nothing. \<^verbatim>\<open>Add\<close> returns no value and has no failing branch. The net class is
  any whose set of members satisfies the invariant of \<^verbatim>\<open>std::set\<close>.
\<close>

theorem NETCLASS_Add_twice:
  assumes "STRINGSET_inv (m_Members S)"
  shows "count_list (NETCLASS_range (NETCLASS_Add n (NETCLASS_Add n S))) n = 1
    \<and> NETCLASS_Add n (NETCLASS_Add n S) = NETCLASS_Add n S
    \<and> set (m_Members (NETCLASS_Add n (NETCLASS_Add n S))) = insert n (set (m_Members S))
    \<and> STRINGSET_inv (m_Members (NETCLASS_Add n (NETCLASS_Add n S)))"
proof -
  have idem: "NETCLASS_Add n (NETCLASS_Add n S) = NETCLASS_Add n S"
    by (simp add: NETCLASS_Add_def STRINGSET_insert_idem)
  have inv: "STRINGSET_inv (m_Members (NETCLASS_Add n S))"
    using assms by (simp add: NETCLASS_Add_def STRINGSET_insert_inv)
  then have "distinct (m_Members (NETCLASS_Add n S))"
    by (simp add: STRINGSET_inv_def strict_sorted_iff)
  moreover have mem: "set (m_Members (NETCLASS_Add n S)) = insert n (set (m_Members S))"
    by (simp add: NETCLASS_Add_def set_STRINGSET_insert)
  ultimately have "count_list (m_Members (NETCLASS_Add n S)) n = 1"
    by (simp add: count_list_distinct)
  with idem inv mem show ?thesis
    by (simp add: NETCLASS_range_eq)
qed

text \<open>Adding VCC twice to a net class that holds GND.\<close>

theorem NETCLASS_Add_twice_witness:
  "STRINGSET_inv (m_Members ((NETCLASS_ctor sample_consts ''Power'')\<lparr>m_Members := [''GND'']\<rparr>))
   \<and> NETCLASS_range (NETCLASS_Add ''VCC'' (NETCLASS_Add ''VCC''
        ((NETCLASS_ctor sample_consts ''Power'')\<lparr>m_Members := [''GND'']\<rparr>)))
      = [''GND'', ''VCC'']
   \<and> count_list (NETCLASS_range (NETCLASS_Add ''VCC'' (NETCLASS_Add ''VCC''
        ((NETCLASS_ctor sample_consts ''Power'')\<lparr>m_Members := [''GND'']\<rparr>)))) ''VCC'' = 1"
proof -
  let ?S = "(NETCLASS_ctor sample_consts ''Power'')\<lparr>m_Members := [''GND'']\<rparr>"
  have h: "STRINGSET_inv (m_Members ?S)"
    by (simp add: STRINGSET_inv_def)
  have r: "NETCLASS_range (NETCLASS_Add ''VCC'' (NETCLASS_Add ''VCC'' ?S)) = [''GND'', ''VCC'']"
    by (simp add: NETCLASS_range_def NETCLASS_begin_def NETCLASS_end_def STRINGSET_size_def
          NETCLASS_Add_def upt_rec)
  from NETCLASS_Add_twice [OF h, of "''VCC''"] h r show ?thesis
    by simp
qed

subsection \<open>What \<^verbatim>\<open>Clear\<close> and \<^verbatim>\<open>SetParams\<close> leave alone\<close>

text \<open>
  Claim C9. \<^verbatim>\<open>NETCLASS::Clear\<close> empties the members and leaves the name, the description and
  every parameter, the layer selection included, as they were.
\<close>

theorem NETCLASS_Clear_frame:
  "m_Members (NETCLASS_Clear S) = []
   \<and> NETCLASS_range (NETCLASS_Clear S) = []
   \<and> NETCLASS_GetCount (NETCLASS_Clear S) = 0
   \<and> m_Name (NETCLASS_Clear S) = m_Name S
   \<and> m_Description (NETCLASS_Clear S) = m_Description S
   \<and> m_Clearance (NETCLASS_Clear S) = m_Clearance S
   \<and> m_TrackWidth (NETCLASS_Clear S) = m_TrackWidth S
   \<and> m_ViaDia (NETCLASS_Clear S) = m_ViaDia S
   \<and> m_ViaDrill (NETCLASS_Clear S) = m_ViaDrill S
   \<and> m_uViaDia (NETCLASS_Clear S) = m_uViaDia S
   \<and> m_uViaDrill (NETCLASS_Clear S) = m_uViaDrill S
   \<and> m_diffPairWidth (NETCLASS_Clear S) = m_diffPairWidth S
   \<and> m_diffPairGap (NETCLASS_Clear S) = m_diffPairGap S
   \<and> m_max_vias (NETCLASS_Clear S) = m_max_vias S
   \<and> m_topology (NETCLASS_Clear S) = m_topology S
   \<and> m_min_length (NETCLASS_Clear S) = m_min_length S
   \<and> m_max_length (NETCLASS_Clear S) = m_max_length S
   \<and> m_max_skew (NETCLASS_Clear S) = m_max_skew S
   \<and> m_stub_length (NETCLASS_Clear S) = m_stub_length S
   \<and> m_type (NETCLASS_Clear S) = m_type S
   \<and> m_layer (NETCLASS_Clear S) = m_layer S
   \<and> DEFAULT_LAYER_SELECTION (NETCLASS_Clear S) = DEFAULT_LAYER_SELECTION S
   \<and> NETCLASS_Clear S = S\<lparr>m_Members := []\<rparr>"
  by (simp add: NETCLASS_Clear_def STRINGSET_clear_def NETCLASS_range_def NETCLASS_begin_def
        NETCLASS_end_def STRINGSET_size_def NETCLASS_GetCount_def)

text \<open>
  Claim C3. After \<^verbatim>\<open>S.SetParams( T )\<close> every routing and electrical parameter of \<open>S\<close>, from
  the clearance to the layer selection, is that of \<open>T\<close>, and the name, the description and
  the members of \<open>S\<close> are as before.
\<close>

theorem NETCLASS_SetParams_frame:
  "m_Clearance (NETCLASS_SetParams T S) = m_Clearance T
   \<and> m_TrackWidth (NETCLASS_SetParams T S) = m_TrackWidth T
   \<and> m_ViaDia (NETCLASS_SetParams T S) = m_ViaDia T
   \<and> m_ViaDrill (NETCLASS_SetParams T S) = m_ViaDrill T
   \<and> m_uViaDia (NETCLASS_SetParams T S) = m_uViaDia T
   \<and> m_uViaDrill (NETCLASS_SetParams T S) = m_uViaDrill T
   \<and> m_diffPairWidth (NETCLASS_SetParams T S) = m_diffPairWidth T
   \<and> m_diffPairGap (NETCLASS_SetParams T S) = m_diffPairGap T
   \<and> m_max_vias (NETCLASS_SetParams T S) = m_max_vias T
   \<and> m_topology (NETCLASS_SetParams T S) = m_topology T
   \<and> m_min_length (NETCLASS_SetParams T S) = m_min_length T
   \<and> m_max_length (NETCLASS_SetParams T S) = m_max_length T
   \<and> m_max_skew (NETCLASS_SetParams T S) = m_max_skew T
   \<and> m_stub_length (NETCLASS_SetParams T S) = m_stub_length T
   \<and> m_type (NETCLASS_SetParams T S) = m_type T
   \<and> m_layer (NETCLASS_SetParams T S) = m_layer T
   \<and> m_Name (NETCLASS_SetParams T S) = m_Name S
   \<and> m_Description (NETCLASS_SetParams T S) = m_Description S
   \<and> m_Members (NETCLASS_SetParams T S) = m_Members S"
  by (simp add: NETCLASS_SetParams_def)

subsection \<open>The names of the objects in the store\<close>

text \<open>
  \<^verbatim>\<open>SetName\<close> is the only declared member function that changes the name of a net class,
  and a step of the process changes the name of an object only by calling \<^verbatim>\<open>SetName\<close> on
  that object or by a copy assignment to it.
\<close>

lemma NETCLASS_exec_name:
  assumes "NETCLASS_exec s f A = Some A'" and "\<And>n. f \<noteq> Call_SetName n"
  shows "m_Name A' = m_Name A"
proof (cases f)
  case (Call_SetName n)
  with assms(2) [of n] show ?thesis by simp
next
  case (Call_Remove_iterator i)
  with assms(1) show ?thesis
    by (auto simp: NETCLASS_Remove_iterator_def split: option.splits)
next
  case (Call_SetParams q)
  with assms(1) show ?thesis
    by (auto simp: NETCLASS_SetParams_def split: option.splits)
qed (use assms(1) in \<open>auto simp: NETCLASS_setter_defs NETCLASS_Clear_def NETCLASS_Add_def
      NETCLASS_Remove_def\<close>)

lemma deref_Some_iff:
  "deref s p = Some A \<longleftrightarrow> (\<exists>a. p = Some a \<and> a < length (heap s) \<and> heap s ! a = A)"
  by (auto simp: deref_def split: option.splits)

lemma deref_make_shared:
  "deref s p = Some A \<Longrightarrow> deref (snd (make_shared obj s)) p = Some A"
  by (auto simp: deref_Some_iff make_shared_def nth_append)

lemma deref_GetDefault:
  "deref s p = Some A \<Longrightarrow> deref (snd (NETCLASSES_GetDefault c this s)) p = Some A"
  by (auto simp: deref_Some_iff NETCLASSES_GetDefault_def make_shared_def nth_append
           split: option.splits)

lemma deref_defNetClass_update [simp]:
  "deref (s\<lparr>defNetClass := d\<rparr>) p = deref s p"
  by (cases p) (simp_all add: deref_def)

lemma ptr_call_name:
  assumes "ptr_call q f s = Some s'" and "deref s p = Some A"
    and "\<And>n. \<not> (q = p \<and> f = Call_SetName n)"
  shows "\<exists>A'. deref s' p = Some A' \<and> m_Name A' = m_Name A"
proof -
  from assms(1) obtain b obj where q: "q = Some b" and b: "b < length (heap s)"
    and obj: "NETCLASS_exec s f (heap s ! b) = Some obj"
    and s': "s' = s\<lparr>heap := (heap s)[b := obj]\<rparr>"
    by (auto simp: ptr_call_def split: option.splits if_splits)
  from assms(2) obtain a where p: "p = Some a" and a: "a < length (heap s)"
    and A: "heap s ! a = A"
    by (auto simp: deref_Some_iff)
  show ?thesis
  proof (cases "a = b")
    case True
    with assms(3) p q have "\<And>n. f \<noteq> Call_SetName n" by auto
    with obj have "m_Name obj = m_Name (heap s ! b)" by (rule NETCLASS_exec_name)
    with True p a A s' show ?thesis by (simp add: deref_Some_iff)
  next
    case False
    with p a A s' show ?thesis by (simp add: deref_Some_iff)
  qed
qed

lemma NETCLASS_copy_assign_eq: "NETCLASS_copy_assign other this = other"
  by (simp add: NETCLASS_copy_assign_def)

lemma ptr_copy_assign_Some:
  "ptr_copy_assign q other s = Some s' \<longleftrightarrow>
     (\<exists>b B. q = Some b \<and> b < length (heap s) \<and> deref s other = Some B
        \<and> s' = s\<lparr>heap := (heap s)[b := B]\<rparr>)"
  by (auto simp: ptr_copy_assign_def NETCLASS_copy_assign_eq split: option.splits)

lemma ptr_copy_assign_other:
  assumes "ptr_copy_assign q other s = Some s'" and "deref s p = Some A" and "q \<noteq> p"
  shows "deref s' p = Some A"
  using assms by (auto simp: ptr_copy_assign_Some deref_Some_iff)

lemma ptr_copy_assign_target:
  assumes "ptr_copy_assign p other s = Some s'"
  shows "deref s' p = deref s other"
  using assms by (auto simp: ptr_copy_assign_Some deref_Some_iff deref_def)

lemma step_name:
  assumes "step c e s = Some s'" and "deref s p = Some A" and "\<not> renames p e"
  shows "\<exists>A'. deref s' p = Some A' \<and> m_Name A' = m_Name A"
proof (cases e)
  case (Ev_make_shared n)
  with assms show ?thesis by (auto simp: deref_make_shared)
next
  case (Ev_call q f)
  with assms(3) have "\<And>n. \<not> (q = p \<and> f = Call_SetName n)" by auto
  with assms(1,2) Ev_call show ?thesis by (auto intro: ptr_call_name)
next
  case (Ev_copy_assign q other)
  with assms(3) have "q \<noteq> p" by simp
  with assms(1,2) Ev_copy_assign show ?thesis by (auto dest: ptr_copy_assign_other)
next
  case (Ev_GetDefault r)
  with assms show ?thesis by (auto simp: deref_GetDefault)
next
  case (Ev_GetDefault_assign r q)
  with assms show ?thesis
    by (auto simp: NETCLASSES_GetDefault_assign_def deref_GetDefault)
qed

lemma run_name:
  "run c es s = Some s' \<Longrightarrow> deref s p = Some A
     \<Longrightarrow> list_all (\<lambda>e. \<not> renames p e) es
     \<Longrightarrow> \<exists>A'. deref s' p = Some A' \<and> m_Name A' = m_Name A"
proof (induction es arbitrary: s A)
  case Nil
  then show ?case by simp
next
  case (Cons e es)
  from Cons.prems(1) obtain s1 where s1: "step c e s = Some s1" and r: "run c es s1 = Some s'"
    by (auto split: option.splits)
  from Cons.prems(3) have e: "\<not> renames p e" and es: "list_all (\<lambda>e. \<not> renames p e) es"
    by simp_all
  from step_name [OF s1 Cons.prems(2) e] obtain A1
    where A1: "deref s1 p = Some A1" "m_Name A1 = m_Name A" by blast
  from Cons.IH [OF r A1(1) es] A1(2) show ?case by simp
qed

subsection \<open>The default net class\<close>

lemma renames_Default_renames:
  "\<not> renames_Default s e \<Longrightarrow> defNetClass s = Some p \<Longrightarrow> \<not> renames p e"
  by (cases "(s, e)" rule: renames_Default.cases) auto

lemma step_defNetClass:
  "defNetClass s' = Some p"
  if "step c e s = Some s'" and "\<not> renames_Default s e" and "defNetClass s = Some p"
proof (cases e)
  case (Ev_make_shared n)
  then show ?thesis using that by (auto simp: make_shared_def)
next
  case (Ev_call q f)
  then show ?thesis using that
    by (auto simp: ptr_call_def split: option.splits if_splits)
next
  case (Ev_copy_assign q other)
  then show ?thesis using that
    by (auto simp: ptr_copy_assign_Some)
next
  case (Ev_GetDefault r)
  then show ?thesis using that by (auto simp: NETCLASSES_GetDefault_def)
next
  case (Ev_GetDefault_assign r q)
  then show ?thesis using that by simp
qed

lemma Default_named_GetDefault:
  "Default_named s \<Longrightarrow> Default_named (snd (NETCLASSES_GetDefault c this s))"
  by (auto simp: Default_named_def NETCLASSES_GetDefault_def make_shared_def deref_def
        NETCLASS_ctor_def NETCLASS_GetName_def split: option.splits)

lemma step_Default_named:
  assumes "step c e s = Some s'" and "Default_named s" and "\<not> renames_Default s e"
  shows "Default_named s'"
proof (cases "defNetClass s")
  case None
  show ?thesis
  proof (cases e)
    case (Ev_make_shared n)
    with assms(1) None show ?thesis by (auto simp: Default_named_def make_shared_def)
  next
    case (Ev_call q f)
    with assms(1) None show ?thesis
      by (auto simp: Default_named_def ptr_call_def split: option.splits if_splits)
  next
    case (Ev_copy_assign q other)
    with assms(1) None show ?thesis
      by (auto simp: Default_named_def ptr_copy_assign_Some)
  next
    case (Ev_GetDefault r)
    with assms(1,2) show ?thesis by (auto simp: Default_named_GetDefault)
  next
    case (Ev_GetDefault_assign r q)
    with assms(3) show ?thesis by simp
  qed
next
  case (Some p)
  with assms(2) obtain A where A: "deref s p = Some A" "m_Name A = NETCLASS_Default"
    by (auto simp: Default_named_def NETCLASS_GetName_def split: option.splits)
  from assms(3) Some have "\<not> renames p e" by (rule renames_Default_renames)
  from step_name [OF assms(1) A(1) this] obtain A'
    where "deref s' p = Some A'" "m_Name A' = m_Name A" by blast
  moreover from assms(1,3) Some have "defNetClass s' = Some p" by (rule step_defNetClass)
  ultimately show ?thesis using A(2)
    by (simp add: Default_named_def NETCLASS_GetName_def)
qed

lemma run_Default_named:
  "run c es s = Some s' \<Longrightarrow> Default_named s \<Longrightarrow> Default_kept c es s \<Longrightarrow> Default_named s'"
proof (induction es arbitrary: s)
  case Nil
  then show ?case by simp
next
  case (Cons e es)
  from Cons.prems(1) obtain s1 where s1: "step c e s = Some s1" and r: "run c es s1 = Some s'"
    by (auto split: option.splits)
  from Cons.prems(3) s1 have e: "\<not> renames_Default s e" and k: "Default_kept c es s1"
    by (auto split: if_splits)
  from step_Default_named [OF s1 Cons.prems(2) e] have "Default_named s1" .
  from Cons.IH [OF r this k] show ?case .
qed

lemma Default_named_start: "Default_named process_start"
  by (simp add: Default_named_def process_start_def)

lemma GetDefault_None:
  "defNetClass s = None \<Longrightarrow>
     NETCLASSES_GetDefault c this s =
       (Some (length (heap s)),
        s\<lparr>heap := heap s @ [NETCLASS_ctor c NETCLASS_Default],
          defNetClass := Some (Some (length (heap s)))\<rparr>)"
  by (simp add: NETCLASSES_GetDefault_def make_shared_def)

lemma GetDefault_Some:
  "defNetClass s = Some p \<Longrightarrow> NETCLASSES_GetDefault c this s = (p, s)"
  by (simp add: NETCLASSES_GetDefault_def)

lemma m_Name_ctor: "m_Name (NETCLASS_ctor c aName) = aName"
  by (simp add: NETCLASS_ctor_def)

lemma GetDefault_of_Default_named:
  assumes "Default_named s"
  shows "\<exists>a A. fst (NETCLASSES_GetDefault c r s) = Some a
    \<and> deref (snd (NETCLASSES_GetDefault c r s)) (Some a) = Some A
    \<and> m_Name A = NETCLASS_Default"
proof (cases "defNetClass s")
  case None
  then show ?thesis
    by (simp add: GetDefault_None deref_def m_Name_ctor)
next
  case (Some p)
  with assms obtain A where "deref s p = Some A" "m_Name A = NETCLASS_Default"
    by (auto simp: Default_named_def NETCLASS_GetName_def split: option.splits)
  with Some show ?thesis
    by (auto simp: GetDefault_Some deref_Some_iff)
qed

text \<open>
  What the code does keep: from the start of the process, after any steps none of which
  calls \<^verbatim>\<open>SetName\<close> on the default net class, assigns another net class to it or assigns
  through the reference that \<^verbatim>\<open>GetDefault\<close> returns, \<^verbatim>\<open>GetDefault\<close> on any container returns a
  pointer that is not null, to a net class whose name is "Default"; on the first access
  that net class is newly constructed with this name. \<^verbatim>\<open>Remove( "Default" )\<close> returns the
  null pointer and leaves the container as it was.
\<close>

lemma Default_named_while_kept:
  assumes "run c es process_start = Some s" and "Default_kept c es process_start"
  shows "(\<exists>a A. fst (NETCLASSES_GetDefault c r s) = Some a
            \<and> deref (snd (NETCLASSES_GetDefault c r s)) (Some a) = Some A
            \<and> NETCLASS_GetName A = NETCLASS_Default)
    \<and> (defNetClass s = None \<longrightarrow>
          deref (snd (NETCLASSES_GetDefault c r s)) (fst (NETCLASSES_GetDefault c r s))
            = Some (NETCLASS_ctor c NETCLASS_Default))
    \<and> NETCLASSES_Remove NETCLASS_Default r = (None, r)"
proof -
  have first: "deref (snd (NETCLASSES_GetDefault c r s)) (fst (NETCLASSES_GetDefault c r s))
      = Some (NETCLASS_ctor c NETCLASS_Default)" if "defNetClass s = None"
    by (simp add: GetDefault_None [OF that] deref_def)
  have "Default_named s"
    using assms(1) Default_named_start assms(2) by (rule run_Default_named)
  from GetDefault_of_Default_named [OF this, of c r]
  have "\<exists>a A. fst (NETCLASSES_GetDefault c r s) = Some a
      \<and> deref (snd (NETCLASSES_GetDefault c r s)) (Some a) = Some A
      \<and> NETCLASS_GetName A = NETCLASS_Default"
    by (simp add: NETCLASS_GetName_def)
  with first show ?thesis
    by (simp add: NETCLASSES_Remove_def)
qed

lemmas process_eval_defs =
  process_start_def make_shared_def deref_def ptr_call_def ptr_copy_assign_def
  NETCLASSES_GetDefault_def NETCLASSES_GetDefault_assign_def

text \<open>
  Claim C2. The claim has \<^verbatim>\<open>GetDefault\<close> always return a net class whose name is "Default",
  and so has the comment of the class (lines 308 to 313): "This container will always
  have a default NETCLASS with the name given by const NETCLASS::Default". The code does
  not keep this. \<^verbatim>\<open>GetDefault\<close> hands out a pointer to an object that anyone may change:
  at the start of the process, \<^verbatim>\<open>GetDefault()->SetName( "Power" )\<close> renames the default net
  class, and the next \<^verbatim>\<open>GetDefault\<close> returns the same object, whose name is "Power" now. So
  does the copy assignment \<^verbatim>\<open>*GetDefault() = NETCLASS( "Power" )\<close>.
\<close>

theorem NETCLASSES_GetDefault_renamed:
  "fst (NETCLASSES_GetDefault sample_consts NETCLASSES_ctor process_start) = Some 0
   \<and> map_option NETCLASS_GetName
        (deref (snd (NETCLASSES_GetDefault sample_consts NETCLASSES_ctor process_start)) (Some 0))
      = Some ''Default''
   \<and> ptr_call (Some 0) (Call_SetName ''Power'')
        (snd (NETCLASSES_GetDefault sample_consts NETCLASSES_ctor process_start))
      = Some \<lparr>heap = [NETCLASS_SetName ''Power'' (NETCLASS_ctor sample_consts NETCLASS_Default)],
              defNetClass = Some (Some 0)\<rparr>
   \<and> fst (NETCLASSES_GetDefault sample_consts NETCLASSES_ctor
        \<lparr>heap = [NETCLASS_SetName ''Power'' (NETCLASS_ctor sample_consts NETCLASS_Default)],
         defNetClass = Some (Some 0)\<rparr>) = Some 0
   \<and> map_option NETCLASS_GetName
        (deref (snd (NETCLASSES_GetDefault sample_consts NETCLASSES_ctor
           \<lparr>heap = [NETCLASS_SetName ''Power'' (NETCLASS_ctor sample_consts NETCLASS_Default)],
            defNetClass = Some (Some 0)\<rparr>)) (Some 0))
      = Some ''Power''
   \<and> ''Power'' \<noteq> NETCLASS_Default
   \<and> run sample_consts
        [Ev_GetDefault NETCLASSES_ctor, Ev_make_shared ''Power'',
         Ev_copy_assign (Some 0) (Some 1)]
        process_start
      = Some \<lparr>heap = [NETCLASS_ctor sample_consts ''Power'', NETCLASS_ctor sample_consts ''Power''],
              defNetClass = Some (Some 0)\<rparr>
   \<and> fst (NETCLASSES_GetDefault sample_consts NETCLASSES_ctor
        \<lparr>heap = [NETCLASS_ctor sample_consts ''Power'', NETCLASS_ctor sample_consts ''Power''],
         defNetClass = Some (Some 0)\<rparr>) = Some 0
   \<and> map_option NETCLASS_GetName
        (deref (snd (NETCLASSES_GetDefault sample_consts NETCLASSES_ctor
           \<lparr>heap = [NETCLASS_ctor sample_consts ''Power'', NETCLASS_ctor sample_consts ''Power''],
            defNetClass = Some (Some 0)\<rparr>)) (Some 0))
      = Some ''Power''"
  by (simp add: process_eval_defs NETCLASS_GetName_def NETCLASS_SetName_def NETCLASS_Default_def
        m_Name_ctor NETCLASS_copy_assign_eq)

subsection \<open>The container\<close>

text \<open>
  Claim C1. For a pointer to a net class \<open>A\<close>, \<^verbatim>\<open>NETCLASSES::Add\<close> returns true exactly when
  the name of \<open>A\<close> is not a key of the map; then the map afterwards is the map before with
  the pointer stored under that name. When the name is a key already, \<^verbatim>\<open>Add\<close> returns false
  and the container is unchanged.
\<close>

theorem NETCLASSES_Add_unique:
  assumes "deref s p = Some A"
  shows "\<exists>ok r'. NETCLASSES_Add s p r = Some (ok, r')
     \<and> (ok \<longleftrightarrow> NETCLASS_GetName A \<notin> dom (m_NetClasses r))
     \<and> (ok \<longrightarrow> m_NetClasses r' = (m_NetClasses r)(NETCLASS_GetName A \<mapsto> p))
     \<and> (\<not> ok \<longrightarrow> r' = r)"
  using assms by (auto simp: NETCLASSES_Add_def split: option.splits)

text \<open>Adding "Power" to an empty container, and to one that has the key "Power".\<close>

theorem NETCLASSES_Add_unique_witness:
  "deref (snd (make_shared (NETCLASS_ctor sample_consts ''Power'') process_start)) (Some 0)
      = Some (NETCLASS_ctor sample_consts ''Power'')
   \<and> NETCLASSES_Add (snd (make_shared (NETCLASS_ctor sample_consts ''Power'') process_start))
        (Some 0) NETCLASSES_ctor
      = Some (True, \<lparr>m_NetClasses = [''Power'' \<mapsto> Some 0]\<rparr>)
   \<and> NETCLASSES_Add (snd (make_shared (NETCLASS_ctor sample_consts ''Power'') process_start))
        (Some 0) \<lparr>m_NetClasses = [''Power'' \<mapsto> Some 7]\<rparr>
      = Some (False, \<lparr>m_NetClasses = [''Power'' \<mapsto> Some 7]\<rparr>)"
proof -
  let ?s = "snd (make_shared (NETCLASS_ctor sample_consts ''Power'') process_start)"
  have h: "deref ?s (Some 0) = Some (NETCLASS_ctor sample_consts ''Power'')"
    by (simp add: process_eval_defs)
  have n: "NETCLASS_GetName (NETCLASS_ctor sample_consts ''Power'') = ''Power''"
    by (simp add: NETCLASS_GetName_def m_Name_ctor)
  from NETCLASSES_Add_unique [OF h, of NETCLASSES_ctor]
  have a: "NETCLASSES_Add ?s (Some 0) NETCLASSES_ctor
      = Some (True, \<lparr>m_NetClasses = [''Power'' \<mapsto> Some 0]\<rparr>)"
    by (auto simp: n NETCLASSES_ctor_def)
  from NETCLASSES_Add_unique [OF h, of "\<lparr>m_NetClasses = [''Power'' \<mapsto> Some 7]\<rparr>"]
  have b: "NETCLASSES_Add ?s (Some 0) \<lparr>m_NetClasses = [''Power'' \<mapsto> Some 7]\<rparr>
      = Some (False, \<lparr>m_NetClasses = [''Power'' \<mapsto> Some 7]\<rparr>)"
    by (auto simp: n)
  from h a b show ?thesis by simp
qed

text \<open>
  Claim C7. An empty container has count 0. After \<^verbatim>\<open>Add\<close> of a new net class named
  "Power" the count is 1 and \<^verbatim>\<open>Find( "Power" )\<close> returns the pointer that was added. After
  \<^verbatim>\<open>Remove( "Power" )\<close>, which returns that pointer, the count is 0 and \<^verbatim>\<open>Find( "Power" )\<close>
  returns the null pointer; a second \<^verbatim>\<open>Remove( "Power" )\<close> returns the null pointer and
  changes nothing.
\<close>

theorem NETCLASSES_Power_scenario:
  "NETCLASSES_GetCount NETCLASSES_ctor = 0
   \<and> fst (make_shared (NETCLASS_ctor c ''Power'') s) \<noteq> None
   \<and> map_option NETCLASS_GetName
        (deref (snd (make_shared (NETCLASS_ctor c ''Power'') s))
               (fst (make_shared (NETCLASS_ctor c ''Power'') s))) = Some ''Power''
   \<and> (\<exists>r1 r2.
        NETCLASSES_Add (snd (make_shared (NETCLASS_ctor c ''Power'') s))
            (fst (make_shared (NETCLASS_ctor c ''Power'') s)) NETCLASSES_ctor = Some (True, r1)
        \<and> NETCLASSES_GetCount r1 = 1
        \<and> NETCLASSES_Find ''Power'' r1 = fst (make_shared (NETCLASS_ctor c ''Power'') s)
        \<and> NETCLASSES_Remove ''Power'' r1 = (fst (make_shared (NETCLASS_ctor c ''Power'') s), r2)
        \<and> NETCLASSES_GetCount r2 = 0
        \<and> NETCLASSES_Find ''Power'' r2 = None
        \<and> NETCLASSES_Remove ''Power'' r2 = (None, r2))"
  by (simp add: NETCLASSES_GetCount_def NETCLASSES_ctor_def make_shared_def deref_def
        NETCLASSES_Add_def NETCLASS_GetName_def m_Name_ctor NETCLASSES_Find_def
        NETCLASSES_Remove_def NETCLASS_Default_def)

text \<open>
  Claim C5. \<^verbatim>\<open>GetDefault\<close> does not depend on the container it is called on: on two
  containers it returns the same pointer, the one held by the single static variable,
  which the first call of the process initialises with a new net class and every later
  call leaves alone. A member function called through that pointer changes the object
  that \<^verbatim>\<open>GetDefault\<close> on any other container returns.
\<close>

theorem NETCLASSES_GetDefault_shared:
  "NETCLASSES_GetDefault c r1 s = NETCLASSES_GetDefault c r2 s
   \<and> fst (NETCLASSES_GetDefault c r2 (snd (NETCLASSES_GetDefault c r1 s)))
       = fst (NETCLASSES_GetDefault c r1 s)
   \<and> snd (NETCLASSES_GetDefault c r2 (snd (NETCLASSES_GetDefault c r1 s)))
       = snd (NETCLASSES_GetDefault c r1 s)
   \<and> defNetClass (snd (NETCLASSES_GetDefault c r1 s)) = Some (fst (NETCLASSES_GetDefault c r1 s))
   \<and> (defNetClass s = None \<longrightarrow>
        fst (NETCLASSES_GetDefault c r1 s) = Some (length (heap s))
        \<and> heap (snd (NETCLASSES_GetDefault c r1 s)) = heap s @ [NETCLASS_ctor c NETCLASS_Default])
   \<and> (\<forall>f s'. ptr_call (fst (NETCLASSES_GetDefault c r1 s)) f (snd (NETCLASSES_GetDefault c r1 s))
                 = Some s'
        \<longrightarrow> NETCLASSES_GetDefault c r2 s' = (fst (NETCLASSES_GetDefault c r1 s), s')
          \<and> (\<exists>A. deref (snd (NETCLASSES_GetDefault c r1 s)) (fst (NETCLASSES_GetDefault c r1 s))
                    = Some A
                \<and> deref s' (fst (NETCLASSES_GetDefault c r2 s'))
                    = NETCLASS_exec (snd (NETCLASSES_GetDefault c r1 s)) f A))"
proof (cases "defNetClass s")
  case None
  show ?thesis
    by (simp add: GetDefault_None [OF None] GetDefault_Some)
       (auto simp: ptr_call_def deref_def GetDefault_Some split: option.splits if_splits)
next
  case (Some p)
  show ?thesis
    by (simp add: GetDefault_Some [OF Some] Some)
       (auto simp: ptr_call_def deref_def GetDefault_Some Some split: option.splits if_splits)
qed

text \<open>
  Two containers at the start of the process: the clearance set through the pointer that
  the first returns is read through the pointer that the second returns.
\<close>

theorem NETCLASSES_GetDefault_shared_witness:
  "NETCLASSES_GetDefault sample_consts NETCLASSES_ctor process_start
     = NETCLASSES_GetDefault sample_consts \<lparr>m_NetClasses = [''Power'' \<mapsto> Some 3]\<rparr> process_start
   \<and> defNetClass process_start = None
   \<and> fst (NETCLASSES_GetDefault sample_consts NETCLASSES_ctor process_start) = Some 0
   \<and> heap (snd (NETCLASSES_GetDefault sample_consts NETCLASSES_ctor process_start))
      = [NETCLASS_ctor sample_consts NETCLASS_Default]
   \<and> ptr_call (Some 0) (Call_SetClearance 150000)
        (snd (NETCLASSES_GetDefault sample_consts NETCLASSES_ctor process_start))
      = Some \<lparr>heap = [NETCLASS_SetClearance 150000 (NETCLASS_ctor sample_consts NETCLASS_Default)],
              defNetClass = Some (Some 0)\<rparr>
   \<and> map_option m_Clearance
        (deref \<lparr>heap = [NETCLASS_SetClearance 150000 (NETCLASS_ctor sample_consts NETCLASS_Default)],
                defNetClass = Some (Some 0)\<rparr>
           (fst (NETCLASSES_GetDefault sample_consts \<lparr>m_NetClasses = [''Power'' \<mapsto> Some 3]\<rparr>
              \<lparr>heap = [NETCLASS_SetClearance 150000 (NETCLASS_ctor sample_consts NETCLASS_Default)],
               defNetClass = Some (Some 0)\<rparr>)))
      = Some 150000"
proof -
  let ?r2 = "\<lparr>m_NetClasses = [''Power'' \<mapsto> Some 3]\<rparr>"
  let ?s1 = "snd (NETCLASSES_GetDefault sample_consts NETCLASSES_ctor process_start)"
  let ?s' = "\<lparr>heap = [NETCLASS_SetClearance 150000 (NETCLASS_ctor sample_consts NETCLASS_Default)],
              defNetClass = Some (Some 0)\<rparr>"
  have p: "fst (NETCLASSES_GetDefault sample_consts NETCLASSES_ctor process_start) = Some 0"
    by (simp add: process_eval_defs)
  have h: "ptr_call (Some 0) (Call_SetClearance 150000) ?s1 = Some ?s'"
    by (simp add: process_eval_defs)
  have A: "deref ?s1 (Some 0) = Some (NETCLASS_ctor sample_consts NETCLASS_Default)"
    by (simp add: process_eval_defs)
  note sh = NETCLASSES_GetDefault_shared
    [of sample_consts NETCLASSES_ctor process_start ?r2]
  from sh have eq: "NETCLASSES_GetDefault sample_consts NETCLASSES_ctor process_start
     = NETCLASSES_GetDefault sample_consts ?r2 process_start"
    by blast
  from h p have h': "ptr_call (fst (NETCLASSES_GetDefault sample_consts NETCLASSES_ctor process_start))
      (Call_SetClearance 150000) ?s1 = Some ?s'"
    by simp
  from sh have "\<forall>f s'.
      ptr_call (fst (NETCLASSES_GetDefault sample_consts NETCLASSES_ctor process_start)) f ?s1
        = Some s'
      \<longrightarrow> NETCLASSES_GetDefault sample_consts ?r2 s'
            = (fst (NETCLASSES_GetDefault sample_consts NETCLASSES_ctor process_start), s')
        \<and> (\<exists>A. deref ?s1 (fst (NETCLASSES_GetDefault sample_consts NETCLASSES_ctor process_start))
                  = Some A
              \<and> deref s' (fst (NETCLASSES_GetDefault sample_consts ?r2 s'))
                  = NETCLASS_exec ?s1 f A)"
    by (elim conjE)
  with h' obtain B
    where "deref ?s1 (fst (NETCLASSES_GetDefault sample_consts NETCLASSES_ctor process_start))
             = Some B"
      and "deref ?s' (fst (NETCLASSES_GetDefault sample_consts ?r2 ?s'))
             = NETCLASS_exec ?s1 (Call_SetClearance 150000) B"
    by blast
  with A p have "deref ?s' (fst (NETCLASSES_GetDefault sample_consts ?r2 ?s'))
      = NETCLASS_exec ?s1 (Call_SetClearance 150000) (NETCLASS_ctor sample_consts NETCLASS_Default)"
    by simp
  then have "map_option m_Clearance (deref ?s' (fst (NETCLASSES_GetDefault sample_consts ?r2 ?s')))
      = Some 150000"
    by (simp add: NETCLASS_SetClearance_def)
  moreover have n: "defNetClass process_start = None"
    by (simp add: process_start_def)
  moreover from sh n
  have "heap (snd (NETCLASSES_GetDefault sample_consts NETCLASSES_ctor process_start))
      = heap process_start @ [NETCLASS_ctor sample_consts NETCLASS_Default]"
    by blast
  then have "heap (snd (NETCLASSES_GetDefault sample_consts NETCLASSES_ctor process_start))
      = [NETCLASS_ctor sample_consts NETCLASS_Default]"
    by (simp add: process_start_def)
  ultimately show ?thesis using eq p h by simp
qed


subsection \<open>The names of registered net classes\<close>

text \<open>
  A net class that \<^verbatim>\<open>Add\<close> accepts is stored under the name it has at that moment, where
  \<^verbatim>\<open>Find\<close> finds it.
\<close>

lemma NETCLASSES_Add_registers:
  assumes "deref s p = Some A" and "NETCLASSES_Add s p r = Some (True, r')"
  shows "m_NetClasses r' (NETCLASS_GetName A) = Some p"
    and "NETCLASSES_Find (NETCLASS_GetName A) r' = p"
  using assms by (auto simp: NETCLASSES_Add_def NETCLASSES_Find_def split: option.splits)

text \<open>
  Claim C4, as amended. A net class that a container holds under its name keeps that
  name, and so stays under the key that is its name, through all steps of the process
  other than \<^verbatim>\<open>SetName\<close> called on it and a copy assignment to it: making other net
  classes, \<^verbatim>\<open>GetDefault\<close>, every other member function called on it, every member function
  called on another net class, every copy assignment to another net class. \<^verbatim>\<open>SetName\<close>
  called on it gives it the new name, and a copy assignment to it gives it the name of
  the net class assigned; neither involves the container, which keeps it under the old
  key.
\<close>

theorem NETCLASS_name_while_registered:
  assumes "m_NetClasses r (NETCLASS_GetName A) = Some p"
    and "deref s p = Some A"
    and "run c es s = Some s'"
    and "list_all (\<lambda>e. \<not> renames p e) es"
  shows "(\<exists>A'. deref s' p = Some A' \<and> NETCLASS_GetName A' = NETCLASS_GetName A
            \<and> m_NetClasses r (NETCLASS_GetName A') = Some p)
    \<and> (\<forall>aName s''. step c (Ev_call p (Call_SetName aName)) s' = Some s''
          \<longrightarrow> (\<exists>A''. deref s'' p = Some A'' \<and> NETCLASS_GetName A'' = aName))
    \<and> (\<forall>q s''. step c (Ev_copy_assign p q) s' = Some s''
          \<longrightarrow> (\<exists>B. deref s' q = Some B \<and> deref s'' p = Some B))"
proof -
  from run_name [OF assms(3,2,4)] obtain A'
    where A': "deref s' p = Some A'" "m_Name A' = m_Name A" by blast
  have "\<exists>A''. deref s'' p = Some A'' \<and> NETCLASS_GetName A'' = aName"
    if "step c (Ev_call p (Call_SetName aName)) s' = Some s''" for aName s''
    using that A'(1)
    by (auto simp: ptr_call_def deref_def NETCLASS_GetName_def NETCLASS_SetName_def
             split: option.splits if_splits)
  moreover have "\<exists>B. deref s' q = Some B \<and> deref s'' p = Some B"
    if "step c (Ev_copy_assign p q) s' = Some s''" for q s''
  proof -
    from that have a: "ptr_copy_assign p q s' = Some s''" by simp
    then obtain B where "deref s' q = Some B" by (auto simp: ptr_copy_assign_Some)
    with ptr_copy_assign_target [OF a] show ?thesis by simp
  qed
  ultimately show ?thesis using assms(1) A'
    by (simp add: NETCLASS_GetName_def)
qed

text \<open>
  A net class "Sig" is registered; then its description is set, the default net class is
  made and renamed, the parameters of the default are copied into "Sig" and the default
  is assigned to itself; "Sig" is still named "Sig". Then \<^verbatim>\<open>SetName\<close> is called on it, or
  the default is assigned to it.
\<close>

theorem NETCLASS_name_while_registered_witness:
  "m_NetClasses \<lparr>m_NetClasses = [''Sig'' \<mapsto> Some 0]\<rparr>
        (NETCLASS_GetName (NETCLASS_ctor sample_consts ''Sig'')) = Some (Some 0)
   \<and> deref (snd (make_shared (NETCLASS_ctor sample_consts ''Sig'') process_start)) (Some 0)
      = Some (NETCLASS_ctor sample_consts ''Sig'')
   \<and> run sample_consts
        [Ev_call (Some 0) (Call_SetDescription ''signals''), Ev_GetDefault NETCLASSES_ctor,
         Ev_call (Some 1) (Call_SetName ''Other''), Ev_call (Some 0) (Call_SetParams (Some 1)),
         Ev_copy_assign (Some 1) (Some 1)]
        (snd (make_shared (NETCLASS_ctor sample_consts ''Sig'') process_start))
      = Some \<lparr>heap =
                [NETCLASS_SetParams
                   (NETCLASS_SetName ''Other'' (NETCLASS_ctor sample_consts NETCLASS_Default))
                   (NETCLASS_SetDescription ''signals'' (NETCLASS_ctor sample_consts ''Sig'')),
                 NETCLASS_SetName ''Other'' (NETCLASS_ctor sample_consts NETCLASS_Default)],
              defNetClass = Some (Some 1)\<rparr>
   \<and> list_all (\<lambda>e. \<not> renames (Some 0) e)
        [Ev_call (Some 0) (Call_SetDescription ''signals''), Ev_GetDefault NETCLASSES_ctor,
         Ev_call (Some 1) (Call_SetName ''Other''), Ev_call (Some 0) (Call_SetParams (Some 1)),
         Ev_copy_assign (Some 1) (Some 1)]
   \<and> map_option NETCLASS_GetName
        (deref \<lparr>heap =
                [NETCLASS_SetParams
                   (NETCLASS_SetName ''Other'' (NETCLASS_ctor sample_consts NETCLASS_Default))
                   (NETCLASS_SetDescription ''signals'' (NETCLASS_ctor sample_consts ''Sig'')),
                 NETCLASS_SetName ''Other'' (NETCLASS_ctor sample_consts NETCLASS_Default)],
              defNetClass = Some (Some 1)\<rparr> (Some 0))
      = Some ''Sig''
   \<and> step sample_consts (Ev_call (Some 0) (Call_SetName ''Clk''))
        \<lparr>heap =
                [NETCLASS_SetParams
                   (NETCLASS_SetName ''Other'' (NETCLASS_ctor sample_consts NETCLASS_Default))
                   (NETCLASS_SetDescription ''signals'' (NETCLASS_ctor sample_consts ''Sig'')),
                 NETCLASS_SetName ''Other'' (NETCLASS_ctor sample_consts NETCLASS_Default)],
              defNetClass = Some (Some 1)\<rparr>
      = Some \<lparr>heap =
                [NETCLASS_SetName ''Clk'' (NETCLASS_SetParams
                   (NETCLASS_SetName ''Other'' (NETCLASS_ctor sample_consts NETCLASS_Default))
                   (NETCLASS_SetDescription ''signals'' (NETCLASS_ctor sample_consts ''Sig''))),
                 NETCLASS_SetName ''Other'' (NETCLASS_ctor sample_consts NETCLASS_Default)],
              defNetClass = Some (Some 1)\<rparr>
   \<and> map_option NETCLASS_GetName
        (deref \<lparr>heap =
                [NETCLASS_SetName ''Clk'' (NETCLASS_SetParams
                   (NETCLASS_SetName ''Other'' (NETCLASS_ctor sample_consts NETCLASS_Default))
                   (NETCLASS_SetDescription ''signals'' (NETCLASS_ctor sample_consts ''Sig''))),
                 NETCLASS_SetName ''Other'' (NETCLASS_ctor sample_consts NETCLASS_Default)],
              defNetClass = Some (Some 1)\<rparr> (Some 0))
      = Some ''Clk''
   \<and> step sample_consts (Ev_copy_assign (Some 0) (Some 1))
        \<lparr>heap =
                [NETCLASS_SetParams
                   (NETCLASS_SetName ''Other'' (NETCLASS_ctor sample_consts NETCLASS_Default))
                   (NETCLASS_SetDescription ''signals'' (NETCLASS_ctor sample_consts ''Sig'')),
                 NETCLASS_SetName ''Other'' (NETCLASS_ctor sample_consts NETCLASS_Default)],
              defNetClass = Some (Some 1)\<rparr>
      = Some \<lparr>heap =
                [NETCLASS_SetName ''Other'' (NETCLASS_ctor sample_consts NETCLASS_Default),
                 NETCLASS_SetName ''Other'' (NETCLASS_ctor sample_consts NETCLASS_Default)],
              defNetClass = Some (Some 1)\<rparr>
   \<and> map_option NETCLASS_GetName
        (deref \<lparr>heap =
                [NETCLASS_SetName ''Other'' (NETCLASS_ctor sample_consts NETCLASS_Default),
                 NETCLASS_SetName ''Other'' (NETCLASS_ctor sample_consts NETCLASS_Default)],
              defNetClass = Some (Some 1)\<rparr> (Some 0))
      = Some ''Other''"
proof -
  let ?r = "\<lparr>m_NetClasses = [''Sig'' \<mapsto> Some 0]\<rparr>"
  let ?s = "snd (make_shared (NETCLASS_ctor sample_consts ''Sig'') process_start)"
  let ?es = "[Ev_call (Some 0) (Call_SetDescription ''signals''), Ev_GetDefault NETCLASSES_ctor,
         Ev_call (Some 1) (Call_SetName ''Other''), Ev_call (Some 0) (Call_SetParams (Some 1)),
         Ev_copy_assign (Some 1) (Some 1)]"
  let ?D = "NETCLASS_SetName ''Other'' (NETCLASS_ctor sample_consts NETCLASS_Default)"
  let ?s' = "\<lparr>heap =
                [NETCLASS_SetParams ?D
                   (NETCLASS_SetDescription ''signals'' (NETCLASS_ctor sample_consts ''Sig'')),
                 ?D],
              defNetClass = Some (Some 1)\<rparr>"
  let ?s'' = "\<lparr>heap =
                [NETCLASS_SetName ''Clk'' (NETCLASS_SetParams ?D
                   (NETCLASS_SetDescription ''signals'' (NETCLASS_ctor sample_consts ''Sig''))),
                 ?D],
              defNetClass = Some (Some 1)\<rparr>"
  let ?s3 = "\<lparr>heap = [?D, ?D], defNetClass = Some (Some 1)\<rparr>"
  have h1: "m_NetClasses ?r (NETCLASS_GetName (NETCLASS_ctor sample_consts ''Sig''))
      = Some (Some 0)"
    by (simp add: NETCLASS_GetName_def m_Name_ctor)
  have h2: "deref ?s (Some 0) = Some (NETCLASS_ctor sample_consts ''Sig'')"
    by (simp add: process_eval_defs)
  have h3: "run sample_consts ?es ?s = Some ?s'"
    by (simp add: process_eval_defs NETCLASS_copy_assign_eq)
  have h4: "list_all (\<lambda>e. \<not> renames (Some 0) e) ?es"
    by simp
  have h5: "step sample_consts (Ev_call (Some 0) (Call_SetName ''Clk'')) ?s' = Some ?s''"
    by (simp add: process_eval_defs)
  have h6: "step sample_consts (Ev_copy_assign (Some 0) (Some 1)) ?s' = Some ?s3"
    by (simp add: process_eval_defs NETCLASS_copy_assign_eq)
  note reg = NETCLASS_name_while_registered [OF h1 h2 h3 h4]
  from reg obtain A' where "deref ?s' (Some 0) = Some A'"
    and "NETCLASS_GetName A' = NETCLASS_GetName (NETCLASS_ctor sample_consts ''Sig'')"
    by blast
  then have kept: "map_option NETCLASS_GetName (deref ?s' (Some 0)) = Some ''Sig''"
    by (simp add: NETCLASS_GetName_def m_Name_ctor)
  from reg have "\<forall>aName s''. step sample_consts (Ev_call (Some 0) (Call_SetName aName)) ?s'
        = Some s''
      \<longrightarrow> (\<exists>A''. deref s'' (Some 0) = Some A'' \<and> NETCLASS_GetName A'' = aName)"
    by (elim conjE)
  with h5 obtain A'' where "deref ?s'' (Some 0) = Some A''" and "NETCLASS_GetName A'' = ''Clk''"
    by blast
  then have renamed: "map_option NETCLASS_GetName (deref ?s'' (Some 0)) = Some ''Clk''"
    by simp
  from reg have "\<forall>q s''. step sample_consts (Ev_copy_assign (Some 0) q) ?s' = Some s''
      \<longrightarrow> (\<exists>B. deref ?s' q = Some B \<and> deref s'' (Some 0) = Some B)"
    by (elim conjE)
  with h6 obtain B where "deref ?s' (Some 1) = Some B" and "deref ?s3 (Some 0) = Some B"
    by blast
  moreover have "deref ?s' (Some 1) = Some ?D"
    by (simp add: deref_def)
  ultimately have "deref ?s3 (Some 0) = Some ?D"
    by simp
  then have assigned: "map_option NETCLASS_GetName (deref ?s3 (Some 0)) = Some ''Other''"
    by (simp add: NETCLASS_GetName_def NETCLASS_SetName_def)
  from h1 h2 h3 h4 kept h5 renamed h6 assigned show ?thesis
    by (intro conjI)
qed

text \<open>
  Claim C4 as stated fails, in two ways. A net class that a container holds under "Sig"
  is renamed to "Clk" by \<^verbatim>\<open>SetName\<close>. And a net class that a container holds under "Sig" is
  named "Clk" after the copy assignment of a net class of that name to it. The map of the
  container is as before both times.
\<close>

theorem NETCLASS_renamed_while_registered:
  "m_NetClasses \<lparr>m_NetClasses = [''Sig'' \<mapsto> Some 0]\<rparr> ''Sig'' = Some (Some 0)
   \<and> map_option NETCLASS_GetName
        (deref (snd (make_shared (NETCLASS_ctor sample_consts ''Sig'') process_start)) (Some 0))
      = Some ''Sig''
   \<and> ptr_call (Some 0) (Call_SetName ''Clk'')
        (snd (make_shared (NETCLASS_ctor sample_consts ''Sig'') process_start))
      = Some \<lparr>heap = [NETCLASS_SetName ''Clk'' (NETCLASS_ctor sample_consts ''Sig'')],
              defNetClass = None\<rparr>
   \<and> map_option NETCLASS_GetName
        (deref \<lparr>heap = [NETCLASS_SetName ''Clk'' (NETCLASS_ctor sample_consts ''Sig'')],
                defNetClass = None\<rparr> (Some 0))
      = Some ''Clk''
   \<and> ''Clk'' \<noteq> ''Sig''
   \<and> run sample_consts [Ev_make_shared ''Sig'', Ev_make_shared ''Clk''] process_start
      = Some \<lparr>heap = [NETCLASS_ctor sample_consts ''Sig'', NETCLASS_ctor sample_consts ''Clk''],
              defNetClass = None\<rparr>
   \<and> map_option NETCLASS_GetName
        (deref \<lparr>heap = [NETCLASS_ctor sample_consts ''Sig'', NETCLASS_ctor sample_consts ''Clk''],
                defNetClass = None\<rparr> (Some 0))
      = Some ''Sig''
   \<and> ptr_copy_assign (Some 0) (Some 1)
        \<lparr>heap = [NETCLASS_ctor sample_consts ''Sig'', NETCLASS_ctor sample_consts ''Clk''],
         defNetClass = None\<rparr>
      = Some \<lparr>heap = [NETCLASS_ctor sample_consts ''Clk'', NETCLASS_ctor sample_consts ''Clk''],
              defNetClass = None\<rparr>
   \<and> map_option NETCLASS_GetName
        (deref \<lparr>heap = [NETCLASS_ctor sample_consts ''Clk'', NETCLASS_ctor sample_consts ''Clk''],
                defNetClass = None\<rparr> (Some 0))
      = Some ''Clk''"
  by (simp add: process_eval_defs NETCLASS_GetName_def m_Name_ctor NETCLASS_SetName_def
        NETCLASS_copy_assign_eq)

subsection \<open>The invariant of the member sets in the store\<close>

text \<open>
  The constructor makes a net class with an empty set of members, and no step of the
  process breaks the invariant of a set: every net class that a pointer refers to has
  its member names in strictly ascending order.
\<close>

lemma NETCLASS_ctor_inv: "STRINGSET_inv (m_Members (NETCLASS_ctor c aName))"
  by (simp add: NETCLASS_ctor_def STRINGSET_inv_def)

lemma step_heap_inv:
  assumes "step c e s = Some s'" and "heap_inv s"
  shows "heap_inv s'"
proof (cases e)
  case (Ev_make_shared n)
  with assms show ?thesis
    by (auto simp: heap_inv_def make_shared_def NETCLASS_ctor_inv)
next
  case (Ev_call q f)
  with assms(1) obtain b obj where b: "b < length (heap s)"
    and obj: "NETCLASS_exec s f (heap s ! b) = Some obj"
    and s': "s' = s\<lparr>heap := (heap s)[b := obj]\<rparr>"
    by (auto simp: ptr_call_def split: option.splits if_splits)
  from assms(2) b have "STRINGSET_inv (m_Members (heap s ! b))"
    by (simp add: heap_inv_def list_all_length)
  then have "STRINGSET_inv (m_Members obj)"
    using obj by (rule NETCLASS_exec_inv)
  have "STRINGSET_inv (m_Members ((heap s)[b := obj] ! i))" if "i < length (heap s)" for i
  proof (cases "i = b")
    case True
    with that \<open>STRINGSET_inv (m_Members obj)\<close> show ?thesis by simp
  next
    case False
    with that assms(2) show ?thesis by (simp add: heap_inv_def list_all_length)
  qed
  with s' show ?thesis
    by (simp add: heap_inv_def list_all_length)
next
  case (Ev_copy_assign q other)
  with assms(1) obtain b B where b: "b < length (heap s)" and B: "deref s other = Some B"
    and s': "s' = s\<lparr>heap := (heap s)[b := B]\<rparr>"
    by (auto simp: ptr_copy_assign_Some)
  from assms(2) B have "STRINGSET_inv (m_Members B)"
    by (auto simp: heap_inv_def list_all_length deref_Some_iff)
  have "STRINGSET_inv (m_Members ((heap s)[b := B] ! i))" if "i < length (heap s)" for i
  proof (cases "i = b")
    case True
    with that \<open>STRINGSET_inv (m_Members B)\<close> show ?thesis by simp
  next
    case False
    with that assms(2) show ?thesis by (simp add: heap_inv_def list_all_length)
  qed
  with s' show ?thesis
    by (simp add: heap_inv_def list_all_length)
next
  case (Ev_GetDefault r)
  with assms show ?thesis
    by (cases "defNetClass s")
       (auto simp: heap_inv_def GetDefault_None GetDefault_Some NETCLASS_ctor_inv)
next
  case (Ev_GetDefault_assign r q)
  with assms show ?thesis
    by (cases "defNetClass s")
       (auto simp: heap_inv_def NETCLASSES_GetDefault_assign_def GetDefault_None GetDefault_Some
          NETCLASS_ctor_inv)
qed

lemma run_heap_inv:
  "run c es s = Some s' \<Longrightarrow> heap_inv s \<Longrightarrow> heap_inv s'"
  by (induction es arbitrary: s) (auto split: option.splits dest: step_heap_inv)

lemma reachable_STRINGSET_inv:
  assumes "run c es process_start = Some s" and "deref s p = Some A"
  shows "STRINGSET_inv (m_Members A)"
proof -
  have "heap_inv process_start"
    by (simp add: heap_inv_def process_start_def)
  with assms(1) have "heap_inv s"
    by (rule run_heap_inv)
  with assms(2) show ?thesis
    by (auto simp: heap_inv_def list_all_length deref_Some_iff)
qed

end
